theory Spec2Isabelle
  imports Main "HOL-Library.Word"
begin

section \<open>JavaScript strings and byte buffers\<close>

text \<open>
  A JavaScript string is modelled as a \<open>string\<close>: a list of code units, each an 8-bit
  \<open>char\<close>. Bytes of a \<open>Uint8Array\<close> or a \<open>Buffer\<close> are \<open>8 word\<close>. What the
  scripts write to the console, and the times they measure only to print them, are
  left out.
\<close>

type_synonym byte = "8 word"

definition startsWith :: "string \<Rightarrow> string \<Rightarrow> bool" where
  \<comment> \<open>\<open>s.startsWith(p)\<close>\<close>
  "startsWith s p = (take (length p) s = p)"

definition slice :: "string \<Rightarrow> nat \<Rightarrow> string" where
  \<comment> \<open>\<open>s.slice(n)\<close> for a non-negative \<open>n\<close>\<close>
  "slice s n = drop n s"

definition substring :: "string \<Rightarrow> nat \<Rightarrow> nat \<Rightarrow> string" where
  \<comment> \<open>\<open>s.substring(a, b)\<close>: both indices are clamped to the length and swapped when
      \<open>a > b\<close>\<close>
  "substring s a b =
     (let a' = min a (length s); b' = min b (length s);
          lo = min a' b'; hi = max a' b'
      in take (hi - lo) (drop lo s))"

fun replace :: "string \<Rightarrow> string \<Rightarrow> string \<Rightarrow> string" where
  \<comment> \<open>\<open>s.replace(pat, rep)\<close> with a string pattern: the first occurrence only\<close>
  "replace [] pat rep = (if pat = [] then rep else [])"
| "replace (c # cs) pat rep =
     (if take (length pat) (c # cs) = pat then rep @ drop (length pat) (c # cs)
      else c # replace cs pat rep)"

definition hex_digits :: string where
  "hex_digits = ''0123456789abcdef''"

definition is_lower_hex :: "char \<Rightarrow> bool" where
  "is_lower_hex c = (c \<in> set hex_digits)"

definition is_hex :: "char \<Rightarrow> bool" where
  \<comment> \<open>the character class \<open>[0-9a-fA-F]\<close>\<close>
  "is_hex c = (c \<in> set ''0123456789abcdefABCDEF'')"

definition test_hex :: "nat \<Rightarrow> string \<Rightarrow> bool" where
  \<comment> \<open>\<open>/^[0-9a-fA-F]{n}$/.test(s)\<close>; without the \<open>m\<close> flag \<open>$\<close> matches at the end of
      the input only\<close>
  "test_hex n s = (length s = n \<and> list_all is_hex s)"

definition hex_value :: "char \<Rightarrow> nat option" where
  "hex_value c =
     (let k = of_char c :: nat in
      if 48 \<le> k \<and> k \<le> 57 then Some (k - 48)
      else if 97 \<le> k \<and> k \<le> 102 then Some (k - 87)
      else if 65 \<le> k \<and> k \<le> 70 then Some (k - 55)
      else None)"

fun Buffer_from_hex :: "string \<Rightarrow> byte list" where
  \<comment> \<open>\<open>Buffer.from(s, "hex")\<close>: decoding stops at the first pair that is not two
      hexadecimal digits; a trailing single character is dropped\<close>
  "Buffer_from_hex (a # b # rest) =
     (case (hex_value a, hex_value b) of
        (Some x, Some y) \<Rightarrow> of_nat (16 * x + y) # Buffer_from_hex rest
      | _ \<Rightarrow> [])"
| "Buffer_from_hex _ = []"

definition toString_utf8 :: "byte list \<Rightarrow> string option" where
  \<comment> \<open>\<open>buf.toString("utf8")\<close>. A byte below 0x80 decodes to the ASCII character of that
      code. A byte from 0x80 on is part of a multi-byte sequence or is replaced by
      U+FFFD; either way the decoded text holds a code point outside ASCII, which an
      8-bit \<open>string\<close> cannot hold in general: that text is \<open>None\<close>.\<close>
  "toString_utf8 bs =
     (if list_all (\<lambda>b. b < 0x80) bs then Some (map (\<lambda>b. char_of (unat b)) bs) else None)"

definition hex_byte :: "byte \<Rightarrow> string" where
  "hex_byte b = [hex_digits ! (unat b div 16), hex_digits ! (unat b mod 16)]"

definition toString_hex :: "byte list \<Rightarrow> string" where
  \<comment> \<open>\<open>buf.toString("hex")\<close>: two lowercase digits for each byte\<close>
  "toString_hex bs = concat (map hex_byte bs)"


section \<open>Private-key normalisation\<close>

datatype error =
    Error string
  | InvalidCharacterError
  | Rejected string

text \<open>
  \<open>Error msg\<close> is \<open>new Error(msg)\<close>, thrown by the scripts themselves;
  \<open>InvalidCharacterError\<close> is the \<open>DOMException\<close> of \<open>atob\<close>; \<open>Rejected\<close> is
  an exception or rejected promise of the platform, a library or the network.
\<close>

definition decodePrivateKey :: "string \<Rightarrow> error + string" where
  \<comment> \<open>the \<open>try ... catch\<close> logs the error and throws it again\<close>
  "decodePrivateKey encodedKey =
     (let cleanKey = (if startsWith encodedKey ''PRIVATE_KEY=''
                      then replace encodedKey ''PRIVATE_KEY='' ''''
                      else encodedKey)
      in if startsWith cleanKey ''0x'' \<and> length cleanKey = 66 then Inr cleanKey
         else if \<not> startsWith cleanKey ''0x'' \<and> length cleanKey = 64
           then Inr (''0x'' @ cleanKey)
         else if startsWith cleanKey ''0x'' \<and> length cleanKey > 66
           then Inr (''0x'' @ substring cleanKey 2 66)
         else Inl (Error ''Could not decode private key - unknown or unsupported format.''))"

definition decodeDoubleHexPrivateKey :: "string \<Rightarrow> error + string" where
  \<comment> \<open>the inner \<open>case\<close> is the second \<open>if\<close> of the source: \<open>Some\<close> the key it
      returns, \<open>None\<close> when control leaves it and reaches the \<open>throw\<close>\<close>
  "decodeDoubleHexPrivateKey encodedKey =
     (let cleanKey = (if startsWith encodedKey ''0x'' then slice encodedKey 2
                      else encodedKey)
      in if test_hex 64 cleanKey then Inr (''0x'' @ cleanKey)
         else
           (case (if test_hex 128 cleanKey
                  then (case toString_utf8 (Buffer_from_hex cleanKey) of
                          Some decoded \<Rightarrow>
                            if test_hex 64 decoded then Some (''0x'' @ decoded) else None
                        | None \<Rightarrow> None)
                  else None) of
              Some r \<Rightarrow> Inr r
            | None \<Rightarrow>
                Inl (Error ''Invalid private key format. Expected 64 or 128 hex characters.'')))"


section \<open>Rendering the decrypted key material\<close>

definition hexString :: "byte list \<Rightarrow> string" where
  \<comment> \<open>\<open>const hexString = Buffer.from(decryptedBuffer).toString('hex')\<close>\<close>
  "hexString decryptedBuffer = toString_hex decryptedBuffer"

definition formatKeyMaterial :: "byte list \<Rightarrow> string" where
  \<comment> \<open>the value \<open>decryptHPKEMessage\<close> returns: \<open>0x\<close> followed by \<open>hexString\<close>\<close>
  "formatKeyMaterial decryptedBuffer = ''0x'' @ hexString decryptedBuffer"


section \<open>Base64\<close>

definition base64_alphabet :: string where
  "base64_alphabet = ''ABCDEFGHIJKLMNOPQRSTUVWXYZabcdefghijklmnopqrstuvwxyz0123456789+/''"

definition base64_char :: "nat \<Rightarrow> char" where
  "base64_char v = base64_alphabet ! v"

fun sextets :: "byte list \<Rightarrow> nat list" where
  \<comment> \<open>the 6-bit groups of a byte sequence, three bytes to four groups; the last group
      of a sequence that is not a multiple of three bytes is filled with zero bits\<close>
  "sextets (a # b # c # rest) =
     (let n = unat a * 65536 + unat b * 256 + unat c
      in n div 262144 # n div 4096 mod 64 # n div 64 mod 64 # n mod 64 # sextets rest)"
| "sextets [a, b] =
     (let n = unat a * 1024 + unat b * 4
      in [n div 4096, n div 64 mod 64, n mod 64])"
| "sextets [a] =
     (let n = unat a * 16
      in [n div 64, n mod 64])"
| "sextets [] = []"

definition toString_base64 :: "byte list \<Rightarrow> string" where
  \<comment> \<open>\<open>buf.toString("base64")\<close>: the standard alphabet, padded with \<open>=\<close> to a
      multiple of four characters\<close>
  "toString_base64 bs =
     map base64_char (sextets bs) @ replicate ((3 - length bs mod 3) mod 3) (CHR ''='')"

definition is_ascii_whitespace :: "char \<Rightarrow> bool" where
  \<comment> \<open>TAB, LF, FF, CR and SPACE\<close>
  "is_ascii_whitespace c = (c \<in> set [CHR 0x09, CHR 0x0A, CHR 0x0C, CHR 0x0D, CHR 0x20])"

definition base64_value :: "char \<Rightarrow> nat option" where
  "base64_value c =
     (let k = of_char c :: nat in
      if 65 \<le> k \<and> k \<le> 90 then Some (k - 65)
      else if 97 \<le> k \<and> k \<le> 122 then Some (k - 71)
      else if 48 \<le> k \<and> k \<le> 57 then Some (k + 4)
      else if k = 43 then Some 62
      else if k = 47 then Some 63
      else None)"

definition strip_padding :: "string \<Rightarrow> string" where
  \<comment> \<open>when the length is a multiple of four, one or two \<open>=\<close> at the end are removed\<close>
  "strip_padding d =
     (if length d mod 4 = 0 then
        (if 2 \<le> length d \<and> drop (length d - 2) d = ''=='' then take (length d - 2) d
         else if 1 \<le> length d \<and> drop (length d - 1) d = ''='' then take (length d - 1) d
         else d)
      else d)"

fun from_sextets :: "nat list \<Rightarrow> string" where
  \<comment> \<open>four groups give three bytes; of 18 remaining bits the last two, of 12 remaining
      bits the last four are discarded\<close>
  "from_sextets (p # q # r # s # rest) =
     (let n = p * 262144 + q * 4096 + r * 64 + s
      in char_of (n div 65536) # char_of (n div 256 mod 256) # char_of (n mod 256)
           # from_sextets rest)"
| "from_sextets [p, q, r] =
     (let n = (p * 4096 + q * 64 + r) div 4
      in [char_of (n div 256), char_of (n mod 256)])"
| "from_sextets [p, q] =
     (let n = (p * 64 + q) div 16
      in [char_of n])"
| "from_sextets _ = []"

definition atob :: "string \<Rightarrow> error + string" where
  \<comment> \<open>the platform's \<open>atob\<close>, the forgiving-base64 decode of the WHATWG Infra standard:
      ASCII whitespace is removed, padding is stripped, a remaining length of 1 modulo 4
      or a character outside the alphabet throws, and the rest is decoded to a string
      of code units 0..255\<close>
  "atob data =
     (let d = strip_padding (filter (\<lambda>c. \<not> is_ascii_whitespace c) data)
      in if length d mod 4 = 1 then Inl InvalidCharacterError
         else (case those (map base64_value d) of
                 None \<Rightarrow> Inl InvalidCharacterError
               | Some vs \<Rightarrow> Inr (from_sextets vs)))"

definition base64ToBuffer :: "string \<Rightarrow> error + byte list" where
  \<comment> \<open>\<open>(base64) => Uint8Array.from(atob(base64), c => c.charCodeAt(0)).buffer\<close>\<close>
  "base64ToBuffer base64 =
     (case atob base64 of
        Inl e \<Rightarrow> Inl e
      | Inr s \<Rightarrow> Inr (map (\<lambda>c. of_nat (of_char c)) s))"

definition Buffer_from_utf8 :: "string \<Rightarrow> byte list" where
  \<comment> \<open>\<open>Buffer.from(s)\<close>: the UTF-8 encoding of a string of code units below 256\<close>
  "Buffer_from_utf8 s =
     concat (map (\<lambda>c. let k = of_char c :: nat
                       in if k < 128 then [of_nat k]
                          else [of_nat (192 + k div 64), of_nat (128 + k mod 64)]) s)"


section \<open>The platform: Web Crypto, the HPKE library, the custody service\<close>

datatype kem_id = DhkemP256HkdfSha256 | DhkemP384HkdfSha384 | DhkemP521HkdfSha512

datatype kdf_id = HkdfSha256 | HkdfSha384 | HkdfSha512

datatype aead_id = Aes128Gcm | Aes256Gcm | Chacha20Poly1305 | ExportOnly

record CipherSuite =
  kem :: kem_id
  kdf :: kdf_id
  aead :: aead_id

datatype key_format = Pkcs8 | Spki | Raw | Jwk

datatype named_curve = P256 | P384 | P521

datatype key_algorithm = ECDH named_curve | ECDSA named_curve

datatype key_usage = DeriveKey | DeriveBits | SignData | VerifyData

record 'key CryptoKeyPair =
  publicKey :: 'key
  privateKey :: 'key

record export_body =
  encryption_type :: string
  recipient_public_key :: string

record signature_input =
  headers :: "(string \<times> string) list"
  http_method :: string
  url :: string
  version :: nat
  body :: export_body

record request =
  request_url :: string
  request_method :: string
  request_headers :: "(string \<times> string) list"
  request_body :: string

record response =
  status :: nat
  body_text :: "error + string"

record export_data =
  encapsulated_key :: string
  ciphertext :: string

text \<open>
  Every call that leaves the script is an event of the trace, recorded with what it
  returned. \<open>body_text\<close> is what \<open>await response.text()\<close> gives.
\<close>

datatype ('key, 'ctx) event =
    GenerateKey key_algorithm bool "key_usage list" "error + 'key CryptoKeyPair"
  | ExportKey key_format 'key "error + byte list"
  | GenerateAuthorizationSignature signature_input string "error + string option"
  | Fetch request "error + response"
  | NewPrivyClient string string
  | CreateWallet "string \<times> string" string string "error + string"
  | NewCipherSuite CipherSuite
  | ImportKey key_format "byte list" key_algorithm bool "key_usage list" "error + 'key"
  | CreateRecipientContext CipherSuite 'key "byte list" "error + 'ctx"
  | Open 'ctx "byte list" "byte list option" "error + byte list"

text \<open>
  The platform is a parameter of the model. Key generation, signing and the two network
  calls may answer differently each time: they read the trace so far. The other
  functions are deterministic. \<open>response_json\<close> is \<open>response.json()\<close> on the body
  text followed by the reads of \<open>encapsulated_key\<close> and \<open>ciphertext\<close>, each
  converted to a string as \<open>atob\<close> does with its argument.
\<close>

record ('key, 'ctx) platform =
  generateKey ::
    "('key, 'ctx) event list \<Rightarrow> key_algorithm \<Rightarrow> bool \<Rightarrow> key_usage list
       \<Rightarrow> error + 'key CryptoKeyPair"
  exportKey :: "key_format \<Rightarrow> 'key \<Rightarrow> error + byte list"
  importKey ::
    "key_format \<Rightarrow> byte list \<Rightarrow> key_algorithm \<Rightarrow> bool \<Rightarrow> key_usage list \<Rightarrow> error + 'key"
  createRecipientContext :: "CipherSuite \<Rightarrow> 'key \<Rightarrow> byte list \<Rightarrow> error + 'ctx"
  recipient_open :: "'ctx \<Rightarrow> byte list \<Rightarrow> byte list option \<Rightarrow> error + byte list"
  generateAuthorizationSignature ::
    "('key, 'ctx) event list \<Rightarrow> signature_input \<Rightarrow> string \<Rightarrow> error + string option"
  fetch :: "('key, 'ctx) event list \<Rightarrow> request \<Rightarrow> error + response"
  response_json :: "string \<Rightarrow> error + export_data"
  createWallet ::
    "('key, 'ctx) event list \<Rightarrow> string \<times> string \<Rightarrow> string \<Rightarrow> string \<Rightarrow> error + string"

type_synonym ('a, 'w) io = "'w \<Rightarrow> (error + 'a) \<times> 'w"

definition resolve :: "'a \<Rightarrow> ('a, 'w) io" where
  "resolve x w = (Inr x, w)"

definition reject :: "error \<Rightarrow> ('a, 'w) io" where
  \<comment> \<open>\<open>throw e\<close> inside an \<open>async\<close> function\<close>
  "reject e w = (Inl e, w)"

definition lift :: "error + 'a \<Rightarrow> ('a, 'w) io" where
  \<comment> \<open>a computation that may throw and calls nothing outside the script\<close>
  "lift r w = (r, w)"

definition await :: "('a, 'w) io \<Rightarrow> ('a \<Rightarrow> ('b, 'w) io) \<Rightarrow> ('b, 'w) io" where
  \<comment> \<open>\<open>const x = await m; ...\<close>: a rejection ends the function\<close>
  "await m f w = (case m w of (Inl e, w') \<Rightarrow> (Inl e, w') | (Inr x, w') \<Rightarrow> f x w')"

definition call :: "('e list \<Rightarrow> error + 'a) \<Rightarrow> (error + 'a \<Rightarrow> 'e) \<Rightarrow> ('a, 'e list) io" where
  \<comment> \<open>a call of the platform: its answer, and the event appended to the trace\<close>
  "call answer ev w = (let r = answer w in (r, w @ [ev r]))"

definition emit :: "'e \<Rightarrow> (unit, 'e list) io" where
  "emit e w = (Inr (), w @ [e])"

definition Promise_all2 :: "('a, 'w) io \<Rightarrow> ('b, 'w) io \<Rightarrow> ('a \<times> 'b, 'w) io" where
  \<comment> \<open>\<open>Promise.all([a, b])\<close>: both calls are made. When one rejects, that rejection is
      the result. When both reject, \<open>Promise.all\<close> gives the rejection that comes first
      in time, which the platform decides; the model gives that of \<open>a\<close>.\<close>
  "Promise_all2 a b w =
     (case a w of (ra, w1) \<Rightarrow>
        (case b w1 of (rb, w2) \<Rightarrow>
           ((case ra of Inl e \<Rightarrow> Inl e
             | Inr x \<Rightarrow> (case rb of Inl e \<Rightarrow> Inl e | Inr y \<Rightarrow> Inr (x, y))), w2)))"


section \<open>Decryption\<close>

definition suite :: CipherSuite where
  \<comment> \<open>\<open>new CipherSuite({ kem: new DhkemP256HkdfSha256(), kdf: new HkdfSha256(),
      aead: new Chacha20Poly1305() })\<close>\<close>
  "suite = \<lparr> kem = DhkemP256HkdfSha256, kdf = HkdfSha256, aead = Chacha20Poly1305 \<rparr>"

definition decryptHPKEMessage ::
  "('key, 'ctx) platform \<Rightarrow> string \<Rightarrow> string \<Rightarrow> string \<Rightarrow> (string, ('key, 'ctx) event list) io"
where
  "decryptHPKEMessage P privateKeyBase64 encapsulatedKeyBase64 ciphertextBase64 =
     await (emit (NewCipherSuite suite)) (\<lambda>_.
     await (lift (base64ToBuffer privateKeyBase64)) (\<lambda>pkcs8.
     await (call (\<lambda>_. importKey P Pkcs8 pkcs8 (ECDH P256) True [DeriveKey, DeriveBits])
                 (ImportKey Pkcs8 pkcs8 (ECDH P256) True [DeriveKey, DeriveBits]))
       (\<lambda>privateKey.
     await (lift (base64ToBuffer encapsulatedKeyBase64)) (\<lambda>enc.
     await (call (\<lambda>_. createRecipientContext P suite privateKey enc)
                 (CreateRecipientContext suite privateKey enc))
       (\<lambda>recipient.
     await (lift (base64ToBuffer ciphertextBase64)) (\<lambda>ct.
     await (call (\<lambda>_. recipient_open P recipient ct None) (Open recipient ct None))
       (\<lambda>decryptedBuffer.
     resolve (formatKeyMaterial decryptedBuffer))))))))"


section \<open>Export of a wallet's private key\<close>

definition JSON_string :: "string \<Rightarrow> string" where
  \<comment> \<open>a string between double quotes; the strings serialised here hold no character
      that JSON escapes\<close>
  "JSON_string s = CHR 0x22 # s @ [CHR 0x22]"

definition JSON_stringify :: "export_body \<Rightarrow> string" where
  \<comment> \<open>\<open>JSON.stringify(signatureInput.body)\<close>: the two keys in insertion order\<close>
  "JSON_stringify b =
     ''{'' @ JSON_string ''encryption_type'' @ '':'' @ JSON_string (encryption_type b) @ '',''
       @ JSON_string ''recipient_public_key'' @ '':'' @ JSON_string (recipient_public_key b)
       @ ''}''"

definition ok :: "response \<Rightarrow> bool" where
  \<comment> \<open>\<open>response.ok\<close>: the status is in the range 200 to 299\<close>
  "ok r = (200 \<le> status r \<and> status r \<le> 299)"

definition signatureInput :: "string \<Rightarrow> string \<Rightarrow> string \<Rightarrow> signature_input" where
  \<comment> \<open>\<open>const signatureInput = { headers: ..., method: 'POST', url: ..., version: 1,
      body: { encryption_type: 'HPKE', recipient_public_key: recipientPublicKeyBase64 } }\<close>\<close>
  "signatureInput privyAppId walletId recipientPublicKeyBase64 =
     \<lparr> headers = [(''privy-app-id'', privyAppId)],
       http_method = ''POST'',
       url = ''https://auth.privy.io/v1/wallets/'' @ walletId @ ''/export'',
       version = 1,
       body = \<lparr> encryption_type = ''HPKE'',
                recipient_public_key = recipientPublicKeyBase64 \<rparr> \<rparr>"

definition export_request ::
  "string \<Rightarrow> string \<Rightarrow> string \<Rightarrow> signature_input \<Rightarrow> string \<Rightarrow> request"
where
  \<comment> \<open>the two arguments of \<open>fetch\<close>: the address, and the method, headers and body\<close>
  "export_request privyAppId privyAppSecret walletId input signature =
     \<lparr> request_url = ''https://auth.privy.io/v1/wallets/'' @ walletId @ ''/export'',
       request_method = http_method input,
       request_headers =
         [(''privy-app-id'', privyAppId),
          (''Content-Type'', ''application/json''),
          (''privy-authorization-signature'', signature),
          (''Authorization'',
             ''Basic '' @ toString_base64
                (Buffer_from_utf8 (privyAppId @ '':'' @ privyAppSecret)))],
       request_body = JSON_stringify (body input) \<rparr>"

definition exportWalletPrivateKey ::
  "('key, 'ctx) platform \<Rightarrow> string \<Rightarrow> string \<Rightarrow> string \<Rightarrow> string
     \<Rightarrow> (string, ('key, 'ctx) event list) io"
where
  "exportWalletPrivateKey P privyAppId privyAppSecret walletId authorizationPrivateKey =
     await (call (\<lambda>w. generateKey P w (ECDH P256) True [DeriveKey, DeriveBits])
                 (GenerateKey (ECDH P256) True [DeriveKey, DeriveBits]))
       (\<lambda>keypair.
     await (Promise_all2
              (call (\<lambda>_. exportKey P Spki (publicKey keypair))
                    (ExportKey Spki (publicKey keypair)))
              (call (\<lambda>_. exportKey P Pkcs8 (privateKey keypair))
                    (ExportKey Pkcs8 (privateKey keypair))))
       (\<lambda>(publicKey, privateKey).
     let recipientPublicKeyBase64 = toString_base64 publicKey;
         recipientPrivateKeyBase64 = toString_base64 privateKey;
         input = signatureInput privyAppId walletId recipientPublicKeyBase64
     in
     await (call (\<lambda>w. generateAuthorizationSignature P w input authorizationPrivateKey)
                 (GenerateAuthorizationSignature input authorizationPrivateKey))
       (\<lambda>signature.
     (case signature of
        None \<Rightarrow> reject (Error ''Signature is undefined. Cannot proceed.'')
      | Some sig \<Rightarrow>
     if sig = [] then reject (Error ''Signature is undefined. Cannot proceed.'')
     else
     await (call (\<lambda>w. fetch P w
                         (export_request privyAppId privyAppSecret walletId input sig))
                 (Fetch (export_request privyAppId privyAppSecret walletId input sig)))
       (\<lambda>response.
     if \<not> ok response
     then await (lift (body_text response)) (\<lambda>t.
            reject (Error (''Failed to export wallet: '' @ t)))
     else
     await (lift (case body_text response of
                    Inl e \<Rightarrow> Inl e
                  | Inr t \<Rightarrow> response_json P t)) (\<lambda>exportData.
     await (decryptHPKEMessage P recipientPrivateKeyBase64
              (encapsulated_key exportData) (ciphertext exportData))
       (\<lambda>decryptedPrivateKey.
     resolve decryptedPrivateKey)))))))"


section \<open>The script\<close>

definition createPrivyWallet ::
  "('key, 'ctx) platform \<Rightarrow> string \<times> string \<Rightarrow> string \<Rightarrow> (string, ('key, 'ctx) event list) io"
where
  \<comment> \<open>\<open>privy.walletApi.createWallet({ chainType: "solana", owner: { publicKey } })\<close>;
      \<open>privy\<close> is the client, made of the application id and secret, and the value
      is the \<open>id\<close> of the wallet\<close>
  "createPrivyWallet P privy ownerPublicKey =
     call (\<lambda>w. createWallet P w privy ''solana'' ownerPublicKey)
          (CreateWallet privy ''solana'' ownerPublicKey)"

definition missing :: "string option \<Rightarrow> bool" where
  \<comment> \<open>\<open>!x\<close> for an environment variable: not set, or set to the empty string\<close>
  "missing v = (case v of None \<Rightarrow> True | Some s \<Rightarrow> s = [])"

definition iterations :: nat where
  "iterations = 20"

function export_loop ::
  "('key, 'ctx) platform \<Rightarrow> string \<Rightarrow> string \<Rightarrow> string \<Rightarrow> string \<Rightarrow> nat
     \<Rightarrow> (unit, ('key, 'ctx) event list) io"
where
  \<comment> \<open>\<open>for (let i = 0; i < iterations; i++) { await exportWalletPrivateKey(...) }\<close>;
      the timing of each attempt is only logged\<close>
  "export_loop P privyAppId privyAppSecret walletId authorizationPrivateKey i w =
     (if i < iterations
      then (case exportWalletPrivateKey P privyAppId privyAppSecret walletId
                   authorizationPrivateKey w of
              (Inl e, w') \<Rightarrow> (Inl e, w')
            | (Inr _, w') \<Rightarrow>
                export_loop P privyAppId privyAppSecret walletId authorizationPrivateKey
                  (i + 1) w')
      else (Inr (), w))"
  by pat_completeness auto
termination
  by (relation "measure (\<lambda>(P, a, s, wid, k, i, w). iterations - i)") auto

definition main ::
  "('key, 'ctx) platform \<Rightarrow> (string \<Rightarrow> string option) \<Rightarrow> (unit, ('key, 'ctx) event list) io"
where
  "main P env =
     (let privyAppId = env ''PRIVY_APP_ID'';
          privyAppSecret = env ''PRIVY_APP_SECRET'';
          privyAuthorizationPublicKey = env ''PRIVY_AUTHORIZATION_PUBLIC_KEY'';
          privyAuthorizationPrivateKey = env ''PRIVY_AUTHORIZATION_PRIVATE_KEY''
      in if missing privyAppId \<or> missing privyAppSecret
              \<or> missing privyAuthorizationPublicKey \<or> missing privyAuthorizationPrivateKey
         then reject (Error ''Missing required environment variables'')
         else
           (case (privyAppId, privyAppSecret, privyAuthorizationPublicKey,
                  privyAuthorizationPrivateKey) of
              (Some appId, Some appSecret, Some authorizationPublicKey,
               Some authorizationPrivateKey) \<Rightarrow>
                await (emit (NewPrivyClient appId appSecret)) (\<lambda>_.
                await (createPrivyWallet P (appId, appSecret) authorizationPublicKey)
                  (\<lambda>createdWallet.
                export_loop P appId appSecret createdWallet authorizationPrivateKey 0))
            | _ \<Rightarrow> reject (Error ''Missing required environment variables'')))"

text \<open>
  The last case of \<open>main\<close> is never reached: a variable that is not set is
  \<open>missing\<close>, so past the test all four are \<open>Some\<close>.
\<close>

definition is_network_call :: "('key, 'ctx) event \<Rightarrow> bool" where
  "is_network_call e =
     (case e of Fetch _ _ \<Rightarrow> True | CreateWallet _ _ _ _ \<Rightarrow> True | _ \<Rightarrow> False)"


section \<open>Properties of traces\<close>

definition is_decryption_event :: "('key, 'ctx) event \<Rightarrow> bool" where
  "is_decryption_event e =
     (case e of
        NewCipherSuite _ \<Rightarrow> True
      | ImportKey _ _ _ _ _ _ \<Rightarrow> True
      | CreateRecipientContext _ _ _ _ \<Rightarrow> True
      | Open _ _ _ _ \<Rightarrow> True
      | _ \<Rightarrow> False)"

definition import_gave :: "'key \<Rightarrow> ('key, 'ctx) event \<Rightarrow> bool" where
  "import_gave k e = (case e of ImportKey _ _ _ _ _ (Inr k') \<Rightarrow> k' = k | _ \<Rightarrow> False)"

definition context_gave :: "'ctx \<Rightarrow> ('key, 'ctx) event \<Rightarrow> bool" where
  "context_gave c e =
     (case e of CreateRecipientContext _ _ _ (Inr c') \<Rightarrow> c' = c | _ \<Rightarrow> False)"

definition decryption_step ::
  "('key, 'ctx) platform \<Rightarrow> string \<Rightarrow> string \<Rightarrow> string \<Rightarrow> ('key, 'ctx) event list
     \<Rightarrow> ('key, 'ctx) event \<Rightarrow> bool"
where
  \<comment> \<open>what each library call of a decryption must look like, given the platform, the
      three base64 arguments and the other events of the same decryption: the
      arguments it was made with, and its recorded result, which is the answer of the
      platform to exactly those arguments\<close>
  "decryption_step P privateKeyBase64 encapsulatedKeyBase64 ciphertextBase64 evs e =
     (case e of
        ImportKey f bs alg extractable usages res \<Rightarrow>
          f = Pkcs8 \<and> alg = ECDH P256 \<and> extractable \<and> usages = [DeriveKey, DeriveBits]
            \<and> base64ToBuffer privateKeyBase64 = Inr bs
            \<and> res = importKey P f bs alg extractable usages
      | CreateRecipientContext s k enc res \<Rightarrow>
          kem s = DhkemP256HkdfSha256 \<and> kdf s = HkdfSha256 \<and> aead s = Chacha20Poly1305
            \<and> list_ex (import_gave k) evs
            \<and> base64ToBuffer encapsulatedKeyBase64 = Inr enc
            \<and> res = createRecipientContext P s k enc
      | Open c ct aad res \<Rightarrow>
          aad = None \<and> list_ex (context_gave c) evs
            \<and> base64ToBuffer ciphertextBase64 = Inr ct
            \<and> res = recipient_open P c ct aad
      | _ \<Rightarrow> False)"

definition failed_with :: "error \<Rightarrow> ('key, 'ctx) event \<Rightarrow> bool" where
  \<comment> \<open>the library call of the event was rejected with this error\<close>
  "failed_with err e =
     (case e of
        ImportKey _ _ _ _ _ (Inl err') \<Rightarrow> err' = err
      | CreateRecipientContext _ _ _ (Inl err') \<Rightarrow> err' = err
      | Open _ _ _ (Inl err') \<Rightarrow> err' = err
      | _ \<Rightarrow> False)"


section \<open>Tampering\<close>

definition one_byte_flipped :: "byte list \<Rightarrow> byte list \<Rightarrow> bool" where
  \<comment> \<open>the second sequence is the first with the byte at one position changed\<close>
  "one_byte_flipped bs bs' =
     (length bs' = length bs \<and>
      list_ex (\<lambda>i. bs' = bs[i := bs' ! i] \<and> bs' ! i \<noteq> bs ! i) [0..<length bs])"


section \<open>The shapes of a private key\<close>

definition double_encoded :: "string \<Rightarrow> bool" where
  \<comment> \<open>128 hexadecimal digits that are the hexadecimal encoding of 64 hexadecimal
      digits\<close>
  "double_encoded d =
     (test_hex 128 d \<and>
      (case toString_utf8 (Buffer_from_hex d) of Some h \<Rightarrow> test_hex 64 h | None \<Rightarrow> False))"

definition recognised_shape :: "string \<Rightarrow> bool" where
  \<comment> \<open>the three shapes of the specification: 64 hexadecimal digits, 66 characters that
      are \<open>0x\<close> and 64 hexadecimal digits, or 128 digits, double encoded\<close>
  "recognised_shape s =
     (test_hex 64 s \<or> (startsWith s ''0x'' \<and> test_hex 64 (drop 2 s)) \<or> double_encoded s)"


section \<open>An example platform\<close>

text \<open>
  Keys and contexts are numbers. The key generator numbers its keys by the length of the
  trace, an exported key is that many bytes, and \<open>open\<close> returns the ciphertext
  unchanged. The custody service answers every request with \<open>answer\<close>.
\<close>

definition example_platform :: "response \<Rightarrow> (nat, nat) platform" where
  "example_platform answer =
     \<lparr> generateKey = (\<lambda>w alg extractable usages.
          Inr \<lparr> publicKey = length w, privateKey = Suc (length w) \<rparr>),
       exportKey = (\<lambda>f k. Inr (replicate k 1)),
       importKey = (\<lambda>f bs alg extractable usages. Inr (length bs)),
       createRecipientContext = (\<lambda>s k enc. Inr (k + length enc)),
       recipient_open = (\<lambda>c ct aad. Inr ct),
       generateAuthorizationSignature = (\<lambda>w input k. Inr (Some ''signature'')),
       fetch = (\<lambda>w req. Inr answer),
       response_json = (\<lambda>t. Inr \<lparr> encapsulated_key = ''BA=='', ciphertext = ''qw=='' \<rparr>),
       createWallet = (\<lambda>w privy chainType owner. Inr ''w_123'') \<rparr>"


section \<open>A platform that checks what it is given\<close>

text \<open>
  A second example. A key is a number and a recipient context is the pair of the key
  and the encapsulated key. Only PKCS8 keys for ECDH on P-256 are imported and only
  the suite DHKEM(P-256, HKDF-SHA256), HKDF-SHA256, ChaCha20-Poly1305 is accepted. A
  ciphertext is a plaintext followed by one byte, the sum of the key, the bytes of the
  encapsulated key and the bytes of the plaintext; \<open>open\<close> rejects a ciphertext whose
  last byte is not that sum. The signature names the public key it signs.
\<close>

definition checking_platform :: "response \<Rightarrow> (nat, nat \<times> byte list) platform" where
  "checking_platform answer =
     \<lparr> generateKey = (\<lambda>w alg extractable usages.
          Inr \<lparr> publicKey = length w, privateKey = Suc (length w) \<rparr>),
       exportKey = (\<lambda>f k. Inr (if f = Spki then replicate k 1 else [of_nat k])),
       importKey = (\<lambda>f bs alg extractable usages.
          if f = Pkcs8 \<and> alg = ECDH P256 then Inr (length bs)
          else Inl (Rejected ''unsupported key'')),
       createRecipientContext = (\<lambda>s k enc.
          if kem s = DhkemP256HkdfSha256 \<and> kdf s = HkdfSha256 \<and> aead s = Chacha20Poly1305
          then Inr (k, enc)
          else Inl (Rejected ''unsupported suite'')),
       recipient_open = (\<lambda>c ct aad.
          if ct \<noteq> [] \<and> aad = None
               \<and> last ct = of_nat (fst c) + sum_list (snd c) + sum_list (butlast ct)
          then Inr (butlast ct)
          else Inl (Rejected ''open failed'')),
       generateAuthorizationSignature = (\<lambda>w input k.
          Inr (Some (''signed '' @ recipient_public_key (body input)))),
       fetch = (\<lambda>w req. Inr answer),
       response_json = (\<lambda>t. Inr \<lparr> encapsulated_key = ''BA=='', ciphertext = ''q7A='' \<rparr>),
       createWallet = (\<lambda>w privy chainType owner. Inr ''w_123'') \<rparr>"


section \<open>Hexadecimal rendering\<close>

lemma unat_byte_lt: "unat (b::byte) < 256"
  using unsigned_less [of b, where 'a = nat] by simp

lemma length_hex_digits: "length hex_digits = 16"
  by (simp add: hex_digits_def)

lemma hex_digit_lower: "n < 16 \<Longrightarrow> is_lower_hex (hex_digits ! n)"
  unfolding is_lower_hex_def by (rule nth_mem) (simp add: length_hex_digits)

lemma unat_byte_div16: "unat (b::byte) div 16 < 16"
  using unat_byte_lt [of b] by simp

lemma hex_byte_lower: "list_all is_lower_hex (hex_byte b)"
  by (simp add: hex_byte_def hex_digit_lower unat_byte_div16)

lemma length_hex_byte: "length (hex_byte b) = 2"
  by (simp add: hex_byte_def)

lemma length_toString_hex: "length (toString_hex bs) = 2 * length bs"
  by (induction bs) (simp_all add: toString_hex_def length_hex_byte)

lemma toString_hex_lower: "list_all is_lower_hex (toString_hex bs)"
  by (induction bs) (simp_all add: toString_hex_def hex_byte_lower)

lemma hex_value_table: "map hex_value hex_digits = map Some [0..<16]"
  by (simp add: upt_conv_Cons hex_value_def hex_digits_def)

lemma hex_value_digit: "n < 16 \<Longrightarrow> hex_value (hex_digits ! n) = Some n"
proof -
  assume n: "n < 16"
  have "map hex_value hex_digits ! n = map Some [0..<16] ! n"
    by (simp only: hex_value_table)
  then show ?thesis using n by (simp add: length_hex_digits)
qed

lemma Buffer_from_hex_toString_hex: "Buffer_from_hex (toString_hex bs) = bs"
proof (induction bs)
  case Nil
  show ?case by (simp add: toString_hex_def)
next
  case (Cons b bs)
  have "16 * (unat b div 16) + unat b mod 16 = unat b" by simp
  with Cons show ?case
    by (simp add: toString_hex_def hex_byte_def hex_value_digit unat_byte_div16)
qed


section \<open>Base64 encoding and decoding\<close>

lemma base64_value_table: "map base64_value base64_alphabet = map Some [0..<64]"
  by (simp add: upt_conv_Cons base64_value_def base64_alphabet_def)

lemma length_base64_alphabet: "length base64_alphabet = 64"
  by (simp add: base64_alphabet_def)

lemma base64_value_char: "v < 64 \<Longrightarrow> base64_value (base64_char v) = Some v"
proof -
  assume v: "v < 64"
  have "map base64_value base64_alphabet ! v = map Some [0..<64] ! v"
    by (simp only: base64_value_table)
  then show ?thesis using v by (simp add: base64_char_def length_base64_alphabet)
qed

lemma base64_char_not_pad: "v < 64 \<Longrightarrow> base64_char v \<noteq> CHR ''=''"
proof
  assume "v < 64" and "base64_char v = CHR ''=''"
  then have "base64_value (CHR ''='') = Some v" using base64_value_char by metis
  then show False by (simp add: base64_value_def)
qed

lemma base64_char_not_whitespace: "v < 64 \<Longrightarrow> \<not> is_ascii_whitespace (base64_char v)"
proof
  assume v: "v < 64" and "is_ascii_whitespace (base64_char v)"
  then have "base64_value (base64_char v) = None"
    by (auto simp: is_ascii_whitespace_def base64_value_def)
  with v show False by (simp add: base64_value_char)
qed

lemma sextets_lt: "v \<in> set (sextets bs) \<Longrightarrow> v < 64"
proof (induction bs arbitrary: v rule: sextets.induct)
  case (1 a b c rest)
  have "unat a < 256" "unat b < 256" "unat c < 256" by (rule unat_byte_lt)+
  then have "(unat a * 65536 + unat b * 256 + unat c) div 262144 < 64" by simp
  with 1 show ?case by (auto simp: Let_def)
next
  case (2 a b)
  have "unat a < 256" "unat b < 256" by (rule unat_byte_lt)+
  then have "(unat a * 1024 + unat b * 4) div 4096 < 64" by simp
  with 2 show ?case by (auto simp: Let_def)
next
  case (3 a)
  have "unat a < 256" by (rule unat_byte_lt)
  then have "(unat a * 16) div 64 < 64" by simp
  with 3 show ?case by (auto simp: Let_def)
next
  case 4
  then show ?case by simp
qed

lemma split_sextets4:
  "(n div 262144) * 262144 + (n div 4096 mod 64) * 4096 + (n div 64 mod 64) * 64 + n mod 64
     = (n::nat)"
proof -
  define m1 where "m1 = n div 64"
  define m2 where "m2 = m1 div 64"
  define m3 where "m3 = m2 div 64"
  have d2: "n div 4096 = m2"
    unfolding m2_def m1_def by (simp add: div_mult2_eq [symmetric])
  have d3: "n div 262144 = m3"
    unfolding m3_def m2_def m1_def by (simp add: div_mult2_eq [symmetric])
  have e1: "n = m1 * 64 + n mod 64" unfolding m1_def by simp
  have e2: "m1 = m2 * 64 + m1 mod 64" unfolding m2_def by simp
  have e3: "m2 = m3 * 64 + m2 mod 64" unfolding m3_def by simp
  have "m3 * 262144 + (m2 mod 64) * 4096 + (m1 mod 64) * 64 + n mod 64 = n"
    using e1 e2 e3 by linarith
  then show ?thesis unfolding d2 d3 m1_def [symmetric] .
qed

lemma split_sextets3:
  "(n div 4096) * 4096 + (n div 64 mod 64) * 64 + n mod 64 = (n::nat)"
proof -
  define m1 where "m1 = n div 64"
  define m2 where "m2 = m1 div 64"
  have d2: "n div 4096 = m2"
    unfolding m2_def m1_def by (simp add: div_mult2_eq [symmetric])
  have e1: "n = m1 * 64 + n mod 64" unfolding m1_def by simp
  have e2: "m1 = m2 * 64 + m1 mod 64" unfolding m2_def by simp
  have "m2 * 4096 + (m1 mod 64) * 64 + n mod 64 = n"
    using e1 e2 by linarith
  then show ?thesis unfolding d2 m1_def [symmetric] .
qed

lemma bytes3:
  assumes "a < 256" "b < 256" "c < (256::nat)"
  shows "(a * 65536 + b * 256 + c) div 65536 = a"
    and "(a * 65536 + b * 256 + c) div 256 mod 256 = b"
    and "(a * 65536 + b * 256 + c) mod 256 = c"
proof -
  have "b * 256 + c < 65536" using assms by linarith
  then show "(a * 65536 + b * 256 + c) div 65536 = a" by simp
  have "(a * 65536 + b * 256 + c) div 256 = a * 256 + b" using assms by simp
  then show "(a * 65536 + b * 256 + c) div 256 mod 256 = b" using assms by simp
  have e: "a * 65536 + b * 256 + c = c + (a * 256 + b) * 256" by simp
  show "(a * 65536 + b * 256 + c) mod 256 = c"
    unfolding e using assms by (simp only: mod_mult_self1 mod_less)
qed

lemma bytes2:
  assumes "a < 256" "b < (256::nat)"
  shows "(a * 1024 + b * 4) div 4 div 256 = a"
    and "(a * 1024 + b * 4) div 4 mod 256 = b"
proof -
  have "(a * 1024 + b * 4) div 4 = a * 256 + b" by simp
  then show "(a * 1024 + b * 4) div 4 div 256 = a" "(a * 1024 + b * 4) div 4 mod 256 = b"
    using assms by simp_all
qed

lemma from_sextets_sextets: "from_sextets (sextets bs) = map (\<lambda>b. char_of (unat b)) bs"
proof (induction bs rule: sextets.induct)
  case (1 a b c rest)
  define n where "n = unat a * 65536 + unat b * 256 + unat c"
  have "n div 65536 = unat a" "n div 256 mod 256 = unat b" "n mod 256 = unat c"
    unfolding n_def by (rule bytes3; rule unat_byte_lt)+
  with 1 show ?case
    by (simp add: Let_def n_def [symmetric] split_sextets4)
next
  case (2 a b)
  define n where "n = unat a * 1024 + unat b * 4"
  have "n div 4 div 256 = unat a" "n div 4 mod 256 = unat b"
    unfolding n_def by (rule bytes2; rule unat_byte_lt)+
  then show ?case
    by (simp add: Let_def n_def [symmetric] split_sextets3)
next
  case (3 a)
  define n where "n = unat a * 16"
  have r: "(n div 64) * 64 + n mod 64 = n" by simp
  have "n div 16 = unat a" unfolding n_def by simp
  with r show ?case by (simp add: Let_def n_def [symmetric])
next
  case 4
  then show ?case by simp
qed
lemma strip_padding_app:
  assumes ne: "\<And>c. c \<in> set xs \<Longrightarrow> c \<noteq> CHR ''=''"
    and p: "p \<le> 2" and len: "(length xs + p) mod 4 = 0"
  shows "strip_padding (xs @ replicate p (CHR ''='')) = xs"
proof -
  consider "p = 0" | "p = 1" | "p = 2" using p by linarith
  then show ?thesis
  proof cases
    case 1
    have a: "\<not> (2 \<le> length xs \<and> drop (length xs - 2) xs = ''=='')"
    proof
      assume h: "2 \<le> length xs \<and> drop (length xs - 2) xs = ''==''"
      then have "CHR ''='' \<in> set (drop (length xs - 2) xs)" by simp
      then have "CHR ''='' \<in> set xs" by (rule in_set_dropD)
      with ne show False by blast
    qed
    have b: "\<not> (1 \<le> length xs \<and> drop (length xs - 1) xs = ''='')"
    proof
      assume h: "1 \<le> length xs \<and> drop (length xs - 1) xs = ''=''"
      then have "CHR ''='' \<in> set (drop (length xs - 1) xs)" by simp
      then have "CHR ''='' \<in> set xs" by (rule in_set_dropD)
      with ne show False by blast
    qed
    from 1 a b show ?thesis unfolding strip_padding_def by auto
  next
    case 2
    from 2 len have n: "length xs \<ge> 1" by (cases xs) auto
    then have "xs \<noteq> []" by auto
    then obtain ys y where xs: "xs = ys @ [y]" by (metis rev_exhaust)
    with ne have "y \<noteq> CHR ''=''" by simp
    with 2 len xs show ?thesis by (simp add: strip_padding_def)
  next
    case 3
    have rep: "replicate 2 (CHR ''='') = ''==''" by (simp add: numeral_2_eq_2)
    from 3 len show ?thesis unfolding 3 rep by (simp add: strip_padding_def)
  qed
qed

lemma those_map_Some:
  "(\<And>x. x \<in> set xs \<Longrightarrow> f (g x) = Some x) \<Longrightarrow> those (map f (map g xs)) = Some xs"
  by (induction xs) simp_all

lemma length_encoding:
  "(length (sextets bs) + (3 - length bs mod 3) mod 3) mod 4 = 0
     \<and> length (sextets bs) mod 4 \<noteq> 1"
proof (induction bs rule: sextets.induct)
  case (1 a b c rest)
  define k where "k = length (sextets rest)"
  define p where "p = (3 - length rest mod 3) mod 3"
  have ih: "(k + p) mod 4 = 0" "k mod 4 \<noteq> 1"
    using 1 unfolding k_def p_def by simp_all
  have A: "length (sextets (a # b # c # rest)) = k + 4"
    by (simp add: Let_def k_def)
  have "length (a # b # c # rest) = length rest + 3" by simp
  then have "length (a # b # c # rest) mod 3 = length rest mod 3"
    by (simp only: mod_add_self2)
  then have B: "(3 - length (a # b # c # rest) mod 3) mod 3 = p"
    by (simp only: p_def)
  have "(k + 4 + p) mod 4 = (k + p) mod 4" "(k + 4) mod 4 = k mod 4"
    by presburger+
  with ih show ?case unfolding A B by simp
next
  case (2 a b)
  show ?case by (simp add: Let_def)
next
  case (3 a)
  show ?case by (simp add: Let_def)
next
  case 4
  show ?case by simp
qed

lemma atob_toString_base64: "atob (toString_base64 bs) = Inr (map (\<lambda>b. char_of (unat b)) bs)"
proof -
  let ?xs = "map base64_char (sextets bs)"
  let ?p = "(3 - length bs mod 3) mod 3"
  have pad_ws: "\<not> is_ascii_whitespace (CHR ''='')"
    by (simp add: is_ascii_whitespace_def)
  have nows: "filter (\<lambda>c. \<not> is_ascii_whitespace c) (toString_base64 bs) = toString_base64 bs"
  proof (rule filter_True, rule ballI)
    fix c
    assume "c \<in> set (toString_base64 bs)"
    then consider v where "v \<in> set (sextets bs)" "c = base64_char v" | "c = CHR ''=''"
      by (auto simp: toString_base64_def)
    then show "\<not> is_ascii_whitespace c"
      using sextets_lt base64_char_not_whitespace pad_ws by cases auto
  qed
  have ne: "\<And>c. c \<in> set ?xs \<Longrightarrow> c \<noteq> CHR ''=''"
    using sextets_lt base64_char_not_pad by auto
  have len: "(length ?xs + ?p) mod 4 = 0"
    using length_encoding [of bs] by simp
  have p2: "?p \<le> 2"
  proof -
    have "?p < 3" by (rule mod_less_divisor) simp
    then show ?thesis by simp
  qed
  have strip: "strip_padding (toString_base64 bs) = ?xs"
    unfolding toString_base64_def by (rule strip_padding_app [OF ne p2 len])
  have l1: "length ?xs mod 4 \<noteq> 1"
    using length_encoding [of bs] by simp
  have th: "those (map base64_value ?xs) = Some (sextets bs)"
    by (rule those_map_Some) (simp add: sextets_lt base64_value_char)
  show ?thesis
    unfolding atob_def nows strip Let_def using l1 th
    by (simp add: from_sextets_sextets)
qed

lemma base64ToBuffer_toString_base64: "base64ToBuffer (toString_base64 bs) = Inr bs"
proof -
  have "map (\<lambda>c. of_nat (of_char c)) (map (\<lambda>b. char_of (unat b)) bs) = bs"
    by (induction bs) (simp_all add: unat_byte_lt)
  then show ?thesis
    by (simp add: base64ToBuffer_def atob_toString_base64)
qed

lemma toString_base64_inj: "toString_base64 a = toString_base64 b \<Longrightarrow> a = b"
proof -
  assume "toString_base64 a = toString_base64 b"
  then have "base64ToBuffer (toString_base64 a) = base64ToBuffer (toString_base64 b)"
    by simp
  then show "a = b" by (simp only: base64ToBuffer_toString_base64 sum.inject)
qed


section \<open>Running the model\<close>

lemmas io_defs =
  resolve_def reject_def lift_def await_def call_def emit_def Promise_all2_def Let_def

section \<open>Runs on the example platform\<close>

lemma base64ToBuffer_examples:
  "base64ToBuffer ''AQ=='' = Inr [0x01]"
  "base64ToBuffer ''BA=='' = Inr [0x04]"
  "base64ToBuffer ''qw=='' = Inr [0xAB]"
  by (simp_all add: base64ToBuffer_def atob_def strip_padding_def is_ascii_whitespace_def
        base64_value_def)

lemma toString_hex_AB: "toString_hex [0xAB] = ''ab''"
  by (simp add: toString_hex_def hex_byte_def hex_digits_def)

lemma example_decrypt:
  "decryptHPKEMessage (example_platform answer) ''AQ=='' ''BA=='' ''qw=='' [] =
     (Inr ''0xab'',
      [NewCipherSuite \<lparr> kem = DhkemP256HkdfSha256, kdf = HkdfSha256, aead = Chacha20Poly1305 \<rparr>,
       ImportKey Pkcs8 [0x01] (ECDH P256) True [DeriveKey, DeriveBits] (Inr 1),
       CreateRecipientContext
         \<lparr> kem = DhkemP256HkdfSha256, kdf = HkdfSha256, aead = Chacha20Poly1305 \<rparr> 1 [0x04]
         (Inr 2),
       Open 2 [0xAB] None (Inr [0xAB])])"
  by (simp add: decryptHPKEMessage_def io_defs example_platform_def suite_def
        base64ToBuffer_examples formatKeyMaterial_def hexString_def toString_hex_AB)

lemma example_export:
  "exportWalletPrivateKey (example_platform \<lparr> status = 200, body_text = Inr [] \<rparr>)
     ''app'' ''secret'' ''w_123'' ''authorization key'' w =
   (Inr ''0xab'',
    w @ [GenerateKey (ECDH P256) True [DeriveKey, DeriveBits]
           (Inr \<lparr> publicKey = length w, privateKey = Suc (length w) \<rparr>),
         ExportKey Spki (length w) (Inr (replicate (length w) 1)),
         ExportKey Pkcs8 (Suc (length w)) (Inr (replicate (Suc (length w)) 1)),
         GenerateAuthorizationSignature
           (signatureInput ''app'' ''w_123'' (toString_base64 (replicate (length w) 1)))
           ''authorization key'' (Inr (Some ''signature'')),
         Fetch (export_request ''app'' ''secret'' ''w_123''
                  (signatureInput ''app'' ''w_123'' (toString_base64 (replicate (length w) 1)))
                  ''signature'')
           (Inr \<lparr> status = 200, body_text = Inr [] \<rparr>),
         NewCipherSuite
           \<lparr> kem = DhkemP256HkdfSha256, kdf = HkdfSha256, aead = Chacha20Poly1305 \<rparr>,
         ImportKey Pkcs8 (replicate (Suc (length w)) 1) (ECDH P256) True
           [DeriveKey, DeriveBits] (Inr (Suc (length w))),
         CreateRecipientContext
           \<lparr> kem = DhkemP256HkdfSha256, kdf = HkdfSha256, aead = Chacha20Poly1305 \<rparr>
           (Suc (length w)) [0x04] (Inr (Suc (Suc (length w)))),
         Open (Suc (Suc (length w))) [0xAB] None (Inr [0xAB])])"
  by (simp add: exportWalletPrivateKey_def decryptHPKEMessage_def io_defs example_platform_def
        ok_def suite_def base64ToBuffer_toString_base64 base64ToBuffer_examples
        formatKeyMaterial_def hexString_def toString_hex_AB)

section \<open>Runs on the checking platform\<close>

lemma base64ToBuffer_more_examples:
  "base64ToBuffer ''Bw=='' = Inr [0x07]"
  "base64ToBuffer ''BQ=='' = Inr [0x05]"
  "base64ToBuffer ''q7A='' = Inr [0xAB, 0xB0]"
  "base64ToBuffer ''rLA='' = Inr [0xAC, 0xB0]"
  by (simp_all add: base64ToBuffer_def atob_def strip_padding_def is_ascii_whitespace_def
        base64_value_def)

lemma checking_decrypt:
  "decryptHPKEMessage (checking_platform answer) ''Bw=='' ''BA=='' ''q7A='' [] =
     (Inr ''0xab'',
      [NewCipherSuite \<lparr> kem = DhkemP256HkdfSha256, kdf = HkdfSha256, aead = Chacha20Poly1305 \<rparr>,
       ImportKey Pkcs8 [0x07] (ECDH P256) True [DeriveKey, DeriveBits] (Inr 1),
       CreateRecipientContext
         \<lparr> kem = DhkemP256HkdfSha256, kdf = HkdfSha256, aead = Chacha20Poly1305 \<rparr> 1 [0x04]
         (Inr (1, [0x04])),
       Open (1, [0x04]) [0xAB, 0xB0] None (Inr [0xAB])])"
  by (simp add: decryptHPKEMessage_def io_defs checking_platform_def suite_def
        base64ToBuffer_examples base64ToBuffer_more_examples formatKeyMaterial_def
        hexString_def toString_hex_AB)

lemma checking_decrypt_tampered:
  "decryptHPKEMessage (checking_platform answer) ''Bw=='' ''BA=='' ''rLA='' [] =
     (Inl (Rejected ''open failed''),
      [NewCipherSuite \<lparr> kem = DhkemP256HkdfSha256, kdf = HkdfSha256, aead = Chacha20Poly1305 \<rparr>,
       ImportKey Pkcs8 [0x07] (ECDH P256) True [DeriveKey, DeriveBits] (Inr 1),
       CreateRecipientContext
         \<lparr> kem = DhkemP256HkdfSha256, kdf = HkdfSha256, aead = Chacha20Poly1305 \<rparr> 1 [0x04]
         (Inr (1, [0x04])),
       Open (1, [0x04]) [0xAC, 0xB0] None (Inl (Rejected ''open failed''))])"
  by (simp add: decryptHPKEMessage_def io_defs checking_platform_def suite_def
        base64ToBuffer_examples base64ToBuffer_more_examples)

lemma checking_export:
  "exportWalletPrivateKey (checking_platform \<lparr> status = 200, body_text = Inr [] \<rparr>)
     ''app'' ''secret'' ''w_123'' ''authorization key'' w =
   (Inr ''0xab'',
    w @ [GenerateKey (ECDH P256) True [DeriveKey, DeriveBits]
           (Inr \<lparr> publicKey = length w, privateKey = Suc (length w) \<rparr>),
         ExportKey Spki (length w) (Inr (replicate (length w) 1)),
         ExportKey Pkcs8 (Suc (length w)) (Inr [of_nat (Suc (length w))]),
         GenerateAuthorizationSignature
           (signatureInput ''app'' ''w_123'' (toString_base64 (replicate (length w) 1)))
           ''authorization key''
           (Inr (Some (''signed '' @ toString_base64 (replicate (length w) 1)))),
         Fetch (export_request ''app'' ''secret'' ''w_123''
                  (signatureInput ''app'' ''w_123'' (toString_base64 (replicate (length w) 1)))
                  (''signed '' @ toString_base64 (replicate (length w) 1)))
           (Inr \<lparr> status = 200, body_text = Inr [] \<rparr>),
         NewCipherSuite
           \<lparr> kem = DhkemP256HkdfSha256, kdf = HkdfSha256, aead = Chacha20Poly1305 \<rparr>,
         ImportKey Pkcs8 [of_nat (Suc (length w))] (ECDH P256) True
           [DeriveKey, DeriveBits] (Inr 1),
         CreateRecipientContext
           \<lparr> kem = DhkemP256HkdfSha256, kdf = HkdfSha256, aead = Chacha20Poly1305 \<rparr>
           1 [0x04] (Inr (1, [0x04])),
         Open (1, [0x04]) [0xAB, 0xB0] None (Inr [0xAB])])"
  by (simp add: exportWalletPrivateKey_def decryptHPKEMessage_def io_defs
        checking_platform_def ok_def suite_def signatureInput_def
        base64ToBuffer_toString_base64 base64ToBuffer_examples base64ToBuffer_more_examples
        formatKeyMaterial_def hexString_def toString_hex_AB)

text \<open>The checking platform rejects a ciphertext or an encapsulated key with one byte changed.\<close>

lemma one_byte_flippedD:
  assumes "one_byte_flipped bs bs'"
  obtains i v where "i < length bs" and "bs' = bs[i := v]" and "v \<noteq> bs ! i"
  using assms unfolding one_byte_flipped_def list_ex_iff by auto

lemma sum_list_flip:
  fixes bs :: "byte list"
  shows "i < length bs \<Longrightarrow> v \<noteq> bs ! i \<Longrightarrow> sum_list (bs[i := v]) \<noteq> sum_list bs"
proof (induction bs arbitrary: i)
  case Nil
  then show ?case by simp
next
  case (Cons b bs)
  then show ?case by (cases i) auto
qed

lemma sum_list_flipped:
  "one_byte_flipped bs bs' \<Longrightarrow> sum_list bs' \<noteq> sum_list bs"
  by (erule one_byte_flippedD) (simp add: sum_list_flip)

lemma checking_open_flipped_ciphertext:
  assumes "recipient_open (checking_platform answer) c ct None = Inr pt"
    and "one_byte_flipped ct ct'"
  shows "recipient_open (checking_platform answer) c ct' None = Inl (Rejected ''open failed'')"
proof -
  from assms(1) have ne: "ct \<noteq> []"
    and tag: "last ct = of_nat (fst c) + sum_list (snd c) + sum_list (butlast ct)"
    by (auto simp: checking_platform_def split: if_splits)
  from assms(2) obtain i v where i: "i < length ct" and ct': "ct' = ct[i := v]"
    and v: "v \<noteq> ct ! i"
    by (rule one_byte_flippedD)
  have "last ct' \<noteq> of_nat (fst c) + sum_list (snd c) + sum_list (butlast ct')"
  proof (cases "i = length ct - 1")
    case True
    with ne v have "last ct' \<noteq> last ct" "butlast ct' = butlast ct"
      unfolding ct' by (simp_all add: last_list_update butlast_list_update last_conv_nth)
    with tag show ?thesis by simp
  next
    case False
    with i have ib: "i < length (butlast ct)" by simp
    with v have vb: "v \<noteq> butlast ct ! i" by (simp add: nth_butlast)
    from False ne have "last ct' = last ct" "butlast ct' = (butlast ct)[i := v]"
      unfolding ct' by (simp_all add: last_list_update butlast_list_update)
    with tag sum_list_flip [OF ib vb] show ?thesis by simp
  qed
  then show ?thesis by (simp add: checking_platform_def)
qed

lemma checking_open_flipped_encapsulated_key:
  assumes "recipient_open (checking_platform answer) (k, enc) ct None = Inr pt"
    and "one_byte_flipped enc enc'"
  shows "recipient_open (checking_platform answer) (k, enc') ct None
           = Inl (Rejected ''open failed'')"
proof -
  from assms(1) have tag: "last ct = of_nat k + sum_list enc + sum_list (butlast ct)"
    by (auto simp: checking_platform_def split: if_splits)
  from sum_list_flipped [OF assms(2)] tag
  have "last ct \<noteq> of_nat k + sum_list enc' + sum_list (butlast ct)" by simp
  then show ?thesis by (simp add: checking_platform_def)
qed


section \<open>The trace of a decryption and of an export\<close>

lemma decrypt_events:
  assumes "decryptHPKEMessage P a b c w = (r, w')"
  shows "\<exists>evs. w' = w @ evs \<and> list_all is_decryption_event evs"
  using assms
  by (auto simp: decryptHPKEMessage_def io_defs is_decryption_event_def split: sum.splits)

lemma not_decryption_event [simp]:
  "\<not> is_decryption_event (Fetch req res)"
  "\<not> is_decryption_event (GenerateKey alg ext us kp)"
  "\<not> is_decryption_event (ExportKey f k bs)"
  "\<not> is_decryption_event (GenerateAuthorizationSignature input ak sg)"
  by (simp_all add: is_decryption_event_def)

lemma export_fetch:
  assumes "exportWalletPrivateKey P privyAppId privyAppSecret walletId
             authorizationPrivateKey w = (r, w')"
    and "Fetch req res \<in> set (drop (length w) w')"
  shows "\<exists>kp pub priv sg rest.
           generateKey P w (ECDH P256) True [DeriveKey, DeriveBits] = Inr kp
         \<and> exportKey P Spki (publicKey kp) = Inr pub
         \<and> exportKey P Pkcs8 (privateKey kp) = Inr priv
         \<and> sg \<noteq> []
         \<and> req = export_request privyAppId privyAppSecret walletId
                   (signatureInput privyAppId walletId (toString_base64 pub)) sg
         \<and> w' = w @ [GenerateKey (ECDH P256) True [DeriveKey, DeriveBits] (Inr kp),
                     ExportKey Spki (publicKey kp) (Inr pub),
                     ExportKey Pkcs8 (privateKey kp) (Inr priv),
                     GenerateAuthorizationSignature
                       (signatureInput privyAppId walletId (toString_base64 pub))
                       authorizationPrivateKey (Inr (Some sg)),
                     Fetch req res] @ rest
         \<and> list_all is_decryption_event rest
         \<and> generateAuthorizationSignature P
               (w @ [GenerateKey (ECDH P256) True [DeriveKey, DeriveBits] (Inr kp),
                     ExportKey Spki (publicKey kp) (Inr pub),
                     ExportKey Pkcs8 (privateKey kp) (Inr priv)])
               (signatureInput privyAppId walletId (toString_base64 pub))
               authorizationPrivateKey = Inr (Some sg)
         \<and> res = fetch P
               (w @ [GenerateKey (ECDH P256) True [DeriveKey, DeriveBits] (Inr kp),
                     ExportKey Spki (publicKey kp) (Inr pub),
                     ExportKey Pkcs8 (privateKey kp) (Inr priv),
                     GenerateAuthorizationSignature
                       (signatureInput privyAppId walletId (toString_base64 pub))
                       authorizationPrivateKey (Inr (Some sg))])
               req"
  using assms
  apply (simp add: exportWalletPrivateKey_def io_defs
           split: sum.splits prod.splits if_splits option.splits)
  apply (auto dest!: decrypt_events simp: list_all_iff)
  apply (drule bspec, assumption, simp)+
  done

lemma JSON_stringify_inj:
  "JSON_stringify \<lparr> encryption_type = e, recipient_public_key = k \<rparr>
     = JSON_stringify \<lparr> encryption_type = e, recipient_public_key = k' \<rparr> \<Longrightarrow> k = k'"
  by (simp add: JSON_stringify_def JSON_string_def)

section \<open>Properties of the decryption\<close>

text \<open>
  Claim C1. Take a private key, an encapsulated key and a ciphertext that the library,
  under the suite DHKEM(P-256, HKDF-SHA256), HKDF-SHA256, ChaCha20-Poly1305, imports,
  decapsulates and opens (with no associated data) to a plaintext, as it does for what a
  reference encryption produced. Then \<open>decryptHPKEMessage\<close>, on the base64 encodings
  of the three, returns \<open>0x\<close> followed by the hexadecimal encoding of that plaintext:
  two digits for each byte, which decode to the plaintext again.
\<close>

theorem decrypt_round_trip:
  assumes "importKey P Pkcs8 sk (ECDH P256) True [DeriveKey, DeriveBits] = Inr key"
    and "createRecipientContext P
           \<lparr> kem = DhkemP256HkdfSha256, kdf = HkdfSha256, aead = Chacha20Poly1305 \<rparr>
           key enc = Inr recipient"
    and "recipient_open P recipient ct None = Inr plaintext"
  shows "fst (decryptHPKEMessage P (toString_base64 sk) (toString_base64 enc)
                (toString_base64 ct) w) = Inr (''0x'' @ toString_hex plaintext)
         \<and> length (toString_hex plaintext) = 2 * length plaintext
         \<and> Buffer_from_hex (toString_hex plaintext) = plaintext"
  using assms
  by (simp add: decryptHPKEMessage_def io_defs suite_def base64ToBuffer_toString_base64
        formatKeyMaterial_def hexString_def length_toString_hex Buffer_from_hex_toString_hex)

theorem decrypt_round_trip_witness:
  "importKey (example_platform \<lparr> status = 200, body_text = Inr [] \<rparr>) Pkcs8 [0x01] (ECDH P256)
     True [DeriveKey, DeriveBits] = Inr 1
   \<and> createRecipientContext (example_platform \<lparr> status = 200, body_text = Inr [] \<rparr>)
       \<lparr> kem = DhkemP256HkdfSha256, kdf = HkdfSha256, aead = Chacha20Poly1305 \<rparr> 1 [0x04]
       = Inr 2
   \<and> recipient_open (example_platform \<lparr> status = 200, body_text = Inr [] \<rparr>) 2 [0xAB] None
       = Inr [0xAB]
   \<and> fst (decryptHPKEMessage (example_platform \<lparr> status = 200, body_text = Inr [] \<rparr>)
            (toString_base64 [0x01]) (toString_base64 [0x04]) (toString_base64 [0xAB]) [])
       = Inr ''0xab''"
proof -
  let ?P = "example_platform \<lparr> status = 200, body_text = Inr [] \<rparr>"
  have a: "importKey ?P Pkcs8 [0x01] (ECDH P256) True [DeriveKey, DeriveBits] = Inr 1"
    by (simp add: example_platform_def)
  have b: "createRecipientContext ?P
       \<lparr> kem = DhkemP256HkdfSha256, kdf = HkdfSha256, aead = Chacha20Poly1305 \<rparr> 1 [0x04]
       = Inr 2"
    by (simp add: example_platform_def)
  have c: "recipient_open ?P 2 [0xAB] None = Inr [0xAB]"
    by (simp add: example_platform_def)
  from decrypt_round_trip [OF a b c, of "[]"] show ?thesis
    using a b c by (simp add: toString_hex_AB)
qed

text \<open>
  Claim C2. Take a valid triple as in claim C1, and suppose the library has the
  integrity its KEM and AEAD are made for: it rejects the ciphertext with any one byte
  changed, and of the encapsulated key with any one byte changed it rejects either
  that key or, under the context it then makes, the ciphertext. Then with any one
  byte of the ciphertext or of the encapsulated key changed, \<open>decryptHPKEMessage\<close>
  fails, with the very error of the library, and returns no string.
\<close>

theorem tampering_rejected:
  assumes "importKey P Pkcs8 sk (ECDH P256) True [DeriveKey, DeriveBits] = Inr key"
    and "createRecipientContext P
           \<lparr> kem = DhkemP256HkdfSha256, kdf = HkdfSha256, aead = Chacha20Poly1305 \<rparr>
           key enc = Inr recipient"
    and "recipient_open P recipient ct None = Inr plaintext"
    and "\<forall>ct'. one_byte_flipped ct ct' \<longrightarrow>
           (\<exists>err. recipient_open P recipient ct' None = Inl err)"
    and "\<forall>enc'. one_byte_flipped enc enc' \<longrightarrow>
           (case createRecipientContext P
                   \<lparr> kem = DhkemP256HkdfSha256, kdf = HkdfSha256, aead = Chacha20Poly1305 \<rparr>
                   key enc' of
              Inl err \<Rightarrow> True
            | Inr recipient' \<Rightarrow> (\<exists>err. recipient_open P recipient' ct None = Inl err))"
  shows "(one_byte_flipped ct ct' \<longrightarrow>
            (\<exists>err. recipient_open P recipient ct' None = Inl err
               \<and> fst (decryptHPKEMessage P (toString_base64 sk) (toString_base64 enc)
                         (toString_base64 ct') w) = Inl err))
       \<and> (one_byte_flipped enc enc' \<longrightarrow>
            (\<exists>err. fst (decryptHPKEMessage P (toString_base64 sk) (toString_base64 enc')
                         (toString_base64 ct) w) = Inl err
               \<and> (createRecipientContext P
                     \<lparr> kem = DhkemP256HkdfSha256, kdf = HkdfSha256, aead = Chacha20Poly1305 \<rparr>
                     key enc' = Inl err
                   \<or> (\<exists>recipient'.
                        createRecipientContext P
                          \<lparr> kem = DhkemP256HkdfSha256, kdf = HkdfSha256,
                            aead = Chacha20Poly1305 \<rparr>
                          key enc' = Inr recipient'
                        \<and> recipient_open P recipient' ct None = Inl err))))"
proof (intro conjI impI)
  assume "one_byte_flipped ct ct'"
  with assms(4) obtain err where "recipient_open P recipient ct' None = Inl err" by blast
  with assms(1,2) show "\<exists>err. recipient_open P recipient ct' None = Inl err
               \<and> fst (decryptHPKEMessage P (toString_base64 sk) (toString_base64 enc)
                         (toString_base64 ct') w) = Inl err"
    by (simp add: decryptHPKEMessage_def io_defs suite_def base64ToBuffer_toString_base64)
next
  let ?fixed = "\<lparr> kem = DhkemP256HkdfSha256, kdf = HkdfSha256, aead = Chacha20Poly1305 \<rparr>"
  assume "one_byte_flipped enc enc'"
  with assms(5) have c: "case createRecipientContext P ?fixed key enc' of
              Inl err \<Rightarrow> True
            | Inr recipient' \<Rightarrow> (\<exists>err. recipient_open P recipient' ct None = Inl err)"
    by blast
  show "\<exists>err. fst (decryptHPKEMessage P (toString_base64 sk) (toString_base64 enc')
                         (toString_base64 ct) w) = Inl err
               \<and> (createRecipientContext P ?fixed key enc' = Inl err
                   \<or> (\<exists>recipient'.
                        createRecipientContext P ?fixed key enc' = Inr recipient'
                        \<and> recipient_open P recipient' ct None = Inl err))"
  proof (cases "createRecipientContext P ?fixed key enc'")
    case (Inl err)
    with assms(1) show ?thesis
      by (simp add: decryptHPKEMessage_def io_defs suite_def base64ToBuffer_toString_base64)
  next
    case (Inr recipient')
    with c obtain err where "recipient_open P recipient' ct None = Inl err" by auto
    with Inr assms(1) show ?thesis
      by (simp add: decryptHPKEMessage_def io_defs suite_def base64ToBuffer_toString_base64)
  qed
qed

theorem tampering_rejected_witness:
  "one_byte_flipped [0xAB, 0xB0] [0xAC, 0xB0]
   \<and> fst (decryptHPKEMessage (checking_platform \<lparr> status = 200, body_text = Inr [] \<rparr>)
            (toString_base64 [0x07]) (toString_base64 [0x04]) (toString_base64 [0xAC, 0xB0]) [])
       = Inl (Rejected ''open failed'')
   \<and> one_byte_flipped [0x04] [0x05]
   \<and> fst (decryptHPKEMessage (checking_platform \<lparr> status = 200, body_text = Inr [] \<rparr>)
            (toString_base64 [0x07]) (toString_base64 [0x05]) (toString_base64 [0xAB, 0xB0]) [])
       = Inl (Rejected ''open failed'')"
proof -
  let ?P = "checking_platform \<lparr> status = 200, body_text = Inr [] \<rparr>"
  let ?fixed = "\<lparr> kem = DhkemP256HkdfSha256, kdf = HkdfSha256, aead = Chacha20Poly1305 \<rparr>"
  have a: "importKey ?P Pkcs8 [0x07] (ECDH P256) True [DeriveKey, DeriveBits] = Inr 1"
    by (simp add: checking_platform_def)
  have b: "createRecipientContext ?P ?fixed 1 [0x04] = Inr (1, [0x04])"
    by (simp add: checking_platform_def)
  have c: "recipient_open ?P (1, [0x04]) [0xAB, 0xB0] None = Inr [0xAB]"
    by (simp add: checking_platform_def)
  have d: "\<forall>ct'. one_byte_flipped [0xAB, 0xB0] ct' \<longrightarrow>
             (\<exists>err. recipient_open ?P (1, [0x04]) ct' None = Inl err)"
    using checking_open_flipped_ciphertext [OF c] by blast
  have e: "\<forall>enc'. one_byte_flipped [0x04] enc' \<longrightarrow>
             (case createRecipientContext ?P ?fixed 1 enc' of
                Inl err \<Rightarrow> True
              | Inr recipient' \<Rightarrow>
                  (\<exists>err. recipient_open ?P recipient' [0xAB, 0xB0] None = Inl err))"
  proof (intro allI impI)
    fix enc' :: "byte list"
    assume "one_byte_flipped [0x04] enc'"
    from checking_open_flipped_encapsulated_key [OF c this]
    show "case createRecipientContext ?P ?fixed 1 enc' of
                Inl err \<Rightarrow> True
              | Inr recipient' \<Rightarrow>
                  (\<exists>err. recipient_open ?P recipient' [0xAB, 0xB0] None = Inl err)"
      by (simp add: checking_platform_def)
  qed
  have f1: "one_byte_flipped [0xAB, 0xB0] [0xAC, 0xB0]"
    and f2: "one_byte_flipped [0x04] [0x05]"
    by (simp_all add: one_byte_flipped_def upt_conv_Cons)
  have r1: "recipient_open ?P (1, [0x04]) [0xAC, 0xB0] None = Inl (Rejected ''open failed'')"
    by (simp add: checking_platform_def)
  have r2: "createRecipientContext ?P ?fixed 1 [0x05] = Inr (1, [0x05])"
    and r3: "recipient_open ?P (1, [0x05]) [0xAB, 0xB0] None = Inl (Rejected ''open failed'')"
    by (simp_all add: checking_platform_def)
  from tampering_rejected [OF a b c d e, of "[0xAC, 0xB0]" "[]" "[0x05]"] f1 f2 r1 r2 r3
  show ?thesis by auto
qed

text \<open>
  Claim C3. For every input and every behaviour of the library, a decryption first
  makes the cipher suite with the KEM DHKEM(P-256, HKDF-SHA256), the KDF HKDF-SHA256 and
  the AEAD ChaCha20-Poly1305, and makes no other suite. Every key it imports is the
  decoded private key, as PKCS8 for ECDH on P-256; every recipient context is made with
  that suite from a key the import returned and the decoded encapsulated key; every
  \<open>open\<close> is on a context so made, on the decoded ciphertext, with no associated
  data; and what is recorded as the result of each of these calls is the answer of the
  library to exactly these arguments. A string is returned only as the hexadecimal
  rendering of what \<open>open\<close> returned, and a failure is a base64 argument that does
  not decode or the rejection of one of these calls.
\<close>

theorem decrypt_fixed_suite:
  assumes "decryptHPKEMessage P privateKeyBase64 encapsulatedKeyBase64 ciphertextBase64 w
             = (r, w')"
  shows "\<exists>evs.
           w' = w @ NewCipherSuite
                  \<lparr> kem = DhkemP256HkdfSha256, kdf = HkdfSha256, aead = Chacha20Poly1305 \<rparr>
                # evs
           \<and> list_all (decryption_step P privateKeyBase64 encapsulatedKeyBase64
                         ciphertextBase64 evs) evs
           \<and> (\<forall>x. r = Inr x \<longrightarrow>
                  (\<exists>c ct pt. Open c ct None (Inr pt) \<in> set evs
                     \<and> x = ''0x'' @ toString_hex pt))
           \<and> (\<forall>err. r = Inl err \<longrightarrow>
                  base64ToBuffer privateKeyBase64 = Inl err
                  \<or> base64ToBuffer encapsulatedKeyBase64 = Inl err
                  \<or> base64ToBuffer ciphertextBase64 = Inl err
                  \<or> list_ex (failed_with err) evs)"
  using assms
  by (auto simp: decryptHPKEMessage_def io_defs decryption_step_def import_gave_def
        context_gave_def failed_with_def suite_def formatKeyMaterial_def hexString_def
      split: sum.splits)

theorem decrypt_fixed_suite_witness:
  "(\<exists>evs.
     snd (decryptHPKEMessage (checking_platform \<lparr> status = 200, body_text = Inr [] \<rparr>)
            ''Bw=='' ''BA=='' ''q7A='' [])
       = [] @ NewCipherSuite
               \<lparr> kem = DhkemP256HkdfSha256, kdf = HkdfSha256, aead = Chacha20Poly1305 \<rparr>
             # evs
     \<and> list_all (decryption_step (checking_platform \<lparr> status = 200, body_text = Inr [] \<rparr>)
                   ''Bw=='' ''BA=='' ''q7A='' evs) evs
     \<and> (\<exists>c ct pt. Open c ct None (Inr pt) \<in> set evs \<and> ''0xab'' = ''0x'' @ toString_hex pt))
   \<and> (\<exists>evs.
     snd (decryptHPKEMessage (checking_platform \<lparr> status = 200, body_text = Inr [] \<rparr>)
            ''Bw=='' ''BA=='' ''rLA='' [])
       = [] @ NewCipherSuite
               \<lparr> kem = DhkemP256HkdfSha256, kdf = HkdfSha256, aead = Chacha20Poly1305 \<rparr>
             # evs
     \<and> list_all (decryption_step (checking_platform \<lparr> status = 200, body_text = Inr [] \<rparr>)
                   ''Bw=='' ''BA=='' ''rLA='' evs) evs
     \<and> list_ex (failed_with (Rejected ''open failed'')) evs)"
proof -
  let ?P = "checking_platform \<lparr> status = 200, body_text = Inr [] \<rparr>"
  have tampered:
    "base64ToBuffer ''Bw=='' \<noteq> Inl (Rejected ''open failed'')"
    "base64ToBuffer ''BA=='' \<noteq> Inl (Rejected ''open failed'')"
    "base64ToBuffer ''rLA='' \<noteq> Inl (Rejected ''open failed'')"
    by (simp_all add: base64ToBuffer_examples base64ToBuffer_more_examples)
  from decrypt_fixed_suite [OF checking_decrypt [of "\<lparr> status = 200, body_text = Inr [] \<rparr>"]]
  have a: "\<exists>evs.
     snd (decryptHPKEMessage ?P ''Bw=='' ''BA=='' ''q7A='' [])
       = [] @ NewCipherSuite
               \<lparr> kem = DhkemP256HkdfSha256, kdf = HkdfSha256, aead = Chacha20Poly1305 \<rparr>
             # evs
     \<and> list_all (decryption_step ?P ''Bw=='' ''BA=='' ''q7A='' evs) evs
     \<and> (\<exists>c ct pt. Open c ct None (Inr pt) \<in> set evs \<and> ''0xab'' = ''0x'' @ toString_hex pt)"
    by (simp add: checking_decrypt)
  from decrypt_fixed_suite
         [OF checking_decrypt_tampered [of "\<lparr> status = 200, body_text = Inr [] \<rparr>"]] tampered
  have b: "\<exists>evs.
     snd (decryptHPKEMessage ?P ''Bw=='' ''BA=='' ''rLA='' [])
       = [] @ NewCipherSuite
               \<lparr> kem = DhkemP256HkdfSha256, kdf = HkdfSha256, aead = Chacha20Poly1305 \<rparr>
             # evs
     \<and> list_all (decryption_step ?P ''Bw=='' ''BA=='' ''rLA='' evs) evs
     \<and> list_ex (failed_with (Rejected ''open failed'')) evs"
    by (simp add: checking_decrypt_tampered)
  from a b show ?thesis by (rule conjI)
qed

section \<open>Properties of the configuration test\<close>

text \<open>
  Claim C4. When one of the four environment variables is missing (not set, or empty),
  \<open>main\<close> throws \<open>Missing required environment variables\<close> and leaves the trace
  as it was: no call has been made, so none to the network.
\<close>

theorem main_missing_configuration:
  assumes "k \<in> set [''PRIVY_APP_ID'', ''PRIVY_APP_SECRET'', ''PRIVY_AUTHORIZATION_PUBLIC_KEY'',
                     ''PRIVY_AUTHORIZATION_PRIVATE_KEY'']"
    and "missing (env k)"
  shows "main P env w = (Inl (Error ''Missing required environment variables''), w)
         \<and> \<not> list_ex is_network_call (drop (length w) (snd (main P env w)))"
proof -
  have "missing (env ''PRIVY_APP_ID'') \<or> missing (env ''PRIVY_APP_SECRET'')
          \<or> missing (env ''PRIVY_AUTHORIZATION_PUBLIC_KEY'')
          \<or> missing (env ''PRIVY_AUTHORIZATION_PRIVATE_KEY'')"
    using assms by auto
  then have "main P env w = (Inl (Error ''Missing required environment variables''), w)"
    unfolding main_def Let_def by (simp only: if_True reject_def)
  then show ?thesis by simp
qed

theorem main_missing_configuration_witness:
  "missing ((\<lambda>k. if k = ''PRIVY_APP_SECRET'' then None else Some ''value'') ''PRIVY_APP_SECRET'')
   \<and> main (example_platform \<lparr> status = 200, body_text = Inr [] \<rparr>)
        (\<lambda>k. if k = ''PRIVY_APP_SECRET'' then None else Some ''value'') []
       = (Inl (Error ''Missing required environment variables''), [])"
proof -
  let ?env = "\<lambda>k. if k = ''PRIVY_APP_SECRET'' then None else Some ''value''"
  have m: "missing (?env ''PRIVY_APP_SECRET'')" by (simp add: missing_def)
  have k: "''PRIVY_APP_SECRET'' \<in> set [''PRIVY_APP_ID'', ''PRIVY_APP_SECRET'',
             ''PRIVY_AUTHORIZATION_PUBLIC_KEY'', ''PRIVY_AUTHORIZATION_PRIVATE_KEY'']"
    by simp
  from main_missing_configuration
         [where k = "''PRIVY_APP_SECRET''" and env = ?env and w = "[]"
            and P = "example_platform \<lparr> status = 200, body_text = Inr [] \<rparr>"] k m
  show ?thesis by simp
qed

text \<open>
  With the four variables set, the first calls of \<open>main\<close> are the construction of
  the client and the creation of the wallet, a call to the network: the test of the
  configuration stands before both.
\<close>

lemma export_appends:
  "\<exists>evs. snd (exportWalletPrivateKey P privyAppId privyAppSecret walletId
               authorizationPrivateKey w) = w @ evs"
proof -
  obtain r w' where e: "exportWalletPrivateKey P privyAppId privyAppSecret walletId
               authorizationPrivateKey w = (r, w')"
    by (cases "exportWalletPrivateKey P privyAppId privyAppSecret walletId
               authorizationPrivateKey w")
  then have "\<exists>evs. w' = w @ evs"
    by (auto simp: exportWalletPrivateKey_def io_defs
          split: sum.splits prod.splits if_splits option.splits dest!: decrypt_events)
  with e show ?thesis by simp
qed

lemma export_loop_appends:
  "\<exists>evs. snd (export_loop P privyAppId privyAppSecret walletId authorizationPrivateKey i w)
          = w @ evs"
proof (induction P privyAppId privyAppSecret walletId authorizationPrivateKey i w
       rule: export_loop.induct)
  case (1 P privyAppId privyAppSecret walletId authorizationPrivateKey i w)
  show ?case
  proof (cases "i < iterations")
    case False
    then show ?thesis by simp
  next
    case True
    obtain r w' where e: "exportWalletPrivateKey P privyAppId privyAppSecret walletId
               authorizationPrivateKey w = (r, w')"
      by (cases "exportWalletPrivateKey P privyAppId privyAppSecret walletId
               authorizationPrivateKey w")
    from export_appends [of P privyAppId privyAppSecret walletId authorizationPrivateKey w] e
    obtain evs where w': "w' = w @ evs" by auto
    show ?thesis
    proof (cases r)
      case (Inl err)
      with True e w' show ?thesis by simp
    next
      case (Inr x)
      from "1.IH" [OF True e [symmetric] Inr]
      obtain evs' where "snd (export_loop P privyAppId privyAppSecret walletId
                                authorizationPrivateKey (i + 1) w') = w' @ evs'" by blast
      with True e w' Inr show ?thesis by simp
    qed
  qed
qed

lemma main_configured_calls_service:
  assumes "env ''PRIVY_APP_ID'' = Some appId" and "appId \<noteq> []"
    and "env ''PRIVY_APP_SECRET'' = Some appSecret" and "appSecret \<noteq> []"
    and "env ''PRIVY_AUTHORIZATION_PUBLIC_KEY'' = Some publicKeyId" and "publicKeyId \<noteq> []"
    and "env ''PRIVY_AUTHORIZATION_PRIVATE_KEY'' = Some authorizationKey"
    and "authorizationKey \<noteq> []"
  shows "\<exists>rest. snd (main P env w) =
           w @ NewPrivyClient appId appSecret
             # CreateWallet (appId, appSecret) ''solana'' publicKeyId
                 (createWallet P (w @ [NewPrivyClient appId appSecret]) (appId, appSecret)
                    ''solana'' publicKeyId)
             # rest"
proof (cases "createWallet P (w @ [NewPrivyClient appId appSecret]) (appId, appSecret)
                ''solana'' publicKeyId")
  case (Inl err)
  with assms show ?thesis
    by (simp add: main_def missing_def io_defs createPrivyWallet_def)
next
  case (Inr walletId)
  let ?w = "w @ [NewPrivyClient appId appSecret,
                 CreateWallet (appId, appSecret) ''solana'' publicKeyId (Inr walletId)]"
  from export_loop_appends [of P appId appSecret walletId authorizationKey 0 ?w]
  obtain evs where "snd (export_loop P appId appSecret walletId authorizationKey 0 ?w)
                      = ?w @ evs" by blast
  with assms Inr show ?thesis
    by (simp add: main_def missing_def io_defs createPrivyWallet_def)
qed

section \<open>Properties of the export\<close>

text \<open>
  Claim C5, as amended. When the custody service answers the export request with a
  status outside 200 to 299 and the body text \<open>t\<close>, \<open>exportWalletPrivateKey\<close>
  throws the error \<open>Failed to export wallet: t\<close>, which holds the body word for
  word and not the status, and the request is the last call it makes.
\<close>

theorem export_rejected:
  assumes "exportWalletPrivateKey P privyAppId privyAppSecret walletId
             authorizationPrivateKey w = (r, w')"
    and "Fetch req (Inr resp) \<in> set (drop (length w) w')"
    and "\<not> ok resp" and "body_text resp = Inr t"
  shows "r = Inl (Error (''Failed to export wallet: '' @ t)) \<and> last w' = Fetch req (Inr resp)"
  using assms
  apply (simp add: exportWalletPrivateKey_def io_defs
           split: sum.splits prod.splits if_splits option.splits)
  apply (auto dest!: decrypt_events simp: list_all_iff)
  apply (drule bspec, assumption, simp)+
  done

theorem export_rejected_witness:
  "Fetch (export_request ''app'' ''secret'' ''w_123''
            (signatureInput ''app'' ''w_123'' (toString_base64 [])) ''signature'')
         (Inr \<lparr> status = 403, body_text = Inr ''revoked'' \<rparr>)
     \<in> set (drop (length ([] :: (nat, nat) event list))
          (snd (exportWalletPrivateKey
                  (example_platform \<lparr> status = 403, body_text = Inr ''revoked'' \<rparr>)
                  ''app'' ''secret'' ''w_123'' ''authorization key'' [])))
   \<and> \<not> ok \<lparr> status = 403, body_text = Inr ''revoked'' \<rparr>
   \<and> fst (exportWalletPrivateKey
             (example_platform \<lparr> status = 403, body_text = Inr ''revoked'' \<rparr>)
             ''app'' ''secret'' ''w_123'' ''authorization key'' [])
       = Inl (Error ''Failed to export wallet: revoked'')"
proof -
  let ?resp = "\<lparr> status = 403, body_text = Inr ''revoked'' \<rparr>"
  let ?run = "exportWalletPrivateKey (example_platform ?resp)
                ''app'' ''secret'' ''w_123'' ''authorization key'' []"
  have e: "?run = (fst ?run, snd ?run)" by simp
  have m: "Fetch (export_request ''app'' ''secret'' ''w_123''
            (signatureInput ''app'' ''w_123'' (toString_base64 [])) ''signature'') (Inr ?resp)
          \<in> set (drop (length ([] :: (nat, nat) event list)) (snd ?run))"
    by (simp add: exportWalletPrivateKey_def io_defs example_platform_def ok_def)
  have n: "\<not> ok ?resp" by (simp add: ok_def)
  have b: "body_text ?resp = Inr ''revoked''" by simp
  from export_rejected [OF e m n b] m n show ?thesis by simp
qed

text \<open>
  The claim as it was stated fails: the status is not in the error. The answers 404 and
  500 with the same body give the same error.
\<close>

theorem export_rejected_counterexample:
  "fst (exportWalletPrivateKey
          (example_platform \<lparr> status = 404, body_text = Inr ''wallet not found'' \<rparr>)
          ''app'' ''secret'' ''w_123'' ''authorization key'' [])
     = Inl (Error ''Failed to export wallet: wallet not found'')
   \<and> fst (exportWalletPrivateKey
          (example_platform \<lparr> status = 500, body_text = Inr ''wallet not found'' \<rparr>)
          ''app'' ''secret'' ''w_123'' ''authorization key'' [])
     = Inl (Error ''Failed to export wallet: wallet not found'')"
  by (simp add: exportWalletPrivateKey_def io_defs example_platform_def ok_def)

text \<open>
  Claim C8. Suppose the key generator of the platform never returns, later in a run, a
  public key it has returned before, and a key is determined by its SPKI export. Take
  two successive calls of \<open>exportWalletPrivateKey\<close> that both reach the custody
  service. Then each call has asked the generator for a key pair of its own, at its
  own start, the two public keys differ, each request carries the base64 SPKI export of
  the public key generated in its own call, so the two request bodies differ. Each
  call has asked the signer for a signature of its own, over its own signature input,
  which differs from the other; each request is made of that input and carries that
  signature, and is what the custody service was sent.
\<close>

theorem fresh_keypair_per_export:
  assumes fresh: "\<forall>h es kp kp'. es \<noteq> []
              \<and> generateKey P h (ECDH P256) True [DeriveKey, DeriveBits] = Inr kp
              \<and> generateKey P (h @ es) (ECDH P256) True [DeriveKey, DeriveBits] = Inr kp'
              \<longrightarrow> publicKey kp \<noteq> publicKey kp'"
    and spki: "\<forall>k k' bs. exportKey P Spki k = Inr bs \<and> exportKey P Spki k' = Inr bs
              \<longrightarrow> k = k'"
    and first: "exportWalletPrivateKey P privyAppId privyAppSecret walletId
                  authorizationPrivateKey w0 = (r1, w1)"
    and second: "exportWalletPrivateKey P privyAppId privyAppSecret walletId
                  authorizationPrivateKey w1 = (r2, w2)"
    and fetch1: "Fetch req1 res1 \<in> set (drop (length w0) w1)"
    and fetch2: "Fetch req2 res2 \<in> set (drop (length w1) w2)"
  shows "\<exists>kp1 kp2 pub1 pub2 priv1 priv2 sg1 sg2.
           generateKey P w0 (ECDH P256) True [DeriveKey, DeriveBits] = Inr kp1
         \<and> generateKey P w1 (ECDH P256) True [DeriveKey, DeriveBits] = Inr kp2
         \<and> GenerateKey (ECDH P256) True [DeriveKey, DeriveBits] (Inr kp1)
             \<in> set (drop (length w0) w1)
         \<and> GenerateKey (ECDH P256) True [DeriveKey, DeriveBits] (Inr kp2)
             \<in> set (drop (length w1) w2)
         \<and> publicKey kp1 \<noteq> publicKey kp2
         \<and> exportKey P Spki (publicKey kp1) = Inr pub1
         \<and> exportKey P Spki (publicKey kp2) = Inr pub2
         \<and> request_body req1 = JSON_stringify \<lparr> encryption_type = ''HPKE'',
               recipient_public_key = toString_base64 pub1 \<rparr>
         \<and> request_body req2 = JSON_stringify \<lparr> encryption_type = ''HPKE'',
               recipient_public_key = toString_base64 pub2 \<rparr>
         \<and> request_body req1 \<noteq> request_body req2
         \<and> generateAuthorizationSignature P
               (w0 @ [GenerateKey (ECDH P256) True [DeriveKey, DeriveBits] (Inr kp1),
                      ExportKey Spki (publicKey kp1) (Inr pub1),
                      ExportKey Pkcs8 (privateKey kp1) (Inr priv1)])
               (signatureInput privyAppId walletId (toString_base64 pub1))
               authorizationPrivateKey = Inr (Some sg1)
         \<and> generateAuthorizationSignature P
               (w1 @ [GenerateKey (ECDH P256) True [DeriveKey, DeriveBits] (Inr kp2),
                      ExportKey Spki (publicKey kp2) (Inr pub2),
                      ExportKey Pkcs8 (privateKey kp2) (Inr priv2)])
               (signatureInput privyAppId walletId (toString_base64 pub2))
               authorizationPrivateKey = Inr (Some sg2)
         \<and> GenerateAuthorizationSignature
               (signatureInput privyAppId walletId (toString_base64 pub1))
               authorizationPrivateKey (Inr (Some sg1)) \<in> set (drop (length w0) w1)
         \<and> GenerateAuthorizationSignature
               (signatureInput privyAppId walletId (toString_base64 pub2))
               authorizationPrivateKey (Inr (Some sg2)) \<in> set (drop (length w1) w2)
         \<and> req1 = export_request privyAppId privyAppSecret walletId
                    (signatureInput privyAppId walletId (toString_base64 pub1)) sg1
         \<and> req2 = export_request privyAppId privyAppSecret walletId
                    (signatureInput privyAppId walletId (toString_base64 pub2)) sg2
         \<and> res1 = fetch P
               (w0 @ [GenerateKey (ECDH P256) True [DeriveKey, DeriveBits] (Inr kp1),
                      ExportKey Spki (publicKey kp1) (Inr pub1),
                      ExportKey Pkcs8 (privateKey kp1) (Inr priv1),
                      GenerateAuthorizationSignature
                        (signatureInput privyAppId walletId (toString_base64 pub1))
                        authorizationPrivateKey (Inr (Some sg1))])
               req1
         \<and> res2 = fetch P
               (w1 @ [GenerateKey (ECDH P256) True [DeriveKey, DeriveBits] (Inr kp2),
                      ExportKey Spki (publicKey kp2) (Inr pub2),
                      ExportKey Pkcs8 (privateKey kp2) (Inr priv2),
                      GenerateAuthorizationSignature
                        (signatureInput privyAppId walletId (toString_base64 pub2))
                        authorizationPrivateKey (Inr (Some sg2))])
               req2
         \<and> (''privy-authorization-signature'', sg1) \<in> set (request_headers req1)
         \<and> (''privy-authorization-signature'', sg2) \<in> set (request_headers req2)
         \<and> signatureInput privyAppId walletId (toString_base64 pub1)
               \<noteq> signatureInput privyAppId walletId (toString_base64 pub2)"
proof -
  from export_fetch [OF first fetch1] obtain kp1 pub1 priv1 sg1 rest1 where
    g1: "generateKey P w0 (ECDH P256) True [DeriveKey, DeriveBits] = Inr kp1"
    and e1: "exportKey P Spki (publicKey kp1) = Inr pub1"
    and q1: "req1 = export_request privyAppId privyAppSecret walletId
                   (signatureInput privyAppId walletId (toString_base64 pub1)) sg1"
    and w1: "w1 = w0 @ [GenerateKey (ECDH P256) True [DeriveKey, DeriveBits] (Inr kp1),
                     ExportKey Spki (publicKey kp1) (Inr pub1),
                     ExportKey Pkcs8 (privateKey kp1) (Inr priv1),
                     GenerateAuthorizationSignature
                       (signatureInput privyAppId walletId (toString_base64 pub1))
                       authorizationPrivateKey (Inr (Some sg1)),
                     Fetch req1 res1] @ rest1"
    and a1: "generateAuthorizationSignature P
               (w0 @ [GenerateKey (ECDH P256) True [DeriveKey, DeriveBits] (Inr kp1),
                      ExportKey Spki (publicKey kp1) (Inr pub1),
                      ExportKey Pkcs8 (privateKey kp1) (Inr priv1)])
               (signatureInput privyAppId walletId (toString_base64 pub1))
               authorizationPrivateKey = Inr (Some sg1)"
    and t1: "res1 = fetch P
               (w0 @ [GenerateKey (ECDH P256) True [DeriveKey, DeriveBits] (Inr kp1),
                      ExportKey Spki (publicKey kp1) (Inr pub1),
                      ExportKey Pkcs8 (privateKey kp1) (Inr priv1),
                      GenerateAuthorizationSignature
                        (signatureInput privyAppId walletId (toString_base64 pub1))
                        authorizationPrivateKey (Inr (Some sg1))])
               req1"
    by blast
  from export_fetch [OF second fetch2] obtain kp2 pub2 priv2 sg2 rest2 where
    g2: "generateKey P w1 (ECDH P256) True [DeriveKey, DeriveBits] = Inr kp2"
    and e2: "exportKey P Spki (publicKey kp2) = Inr pub2"
    and q2: "req2 = export_request privyAppId privyAppSecret walletId
                   (signatureInput privyAppId walletId (toString_base64 pub2)) sg2"
    and w2: "w2 = w1 @ [GenerateKey (ECDH P256) True [DeriveKey, DeriveBits] (Inr kp2),
                     ExportKey Spki (publicKey kp2) (Inr pub2),
                     ExportKey Pkcs8 (privateKey kp2) (Inr priv2),
                     GenerateAuthorizationSignature
                       (signatureInput privyAppId walletId (toString_base64 pub2))
                       authorizationPrivateKey (Inr (Some sg2)),
                     Fetch req2 res2] @ rest2"
    and a2: "generateAuthorizationSignature P
               (w1 @ [GenerateKey (ECDH P256) True [DeriveKey, DeriveBits] (Inr kp2),
                      ExportKey Spki (publicKey kp2) (Inr pub2),
                      ExportKey Pkcs8 (privateKey kp2) (Inr priv2)])
               (signatureInput privyAppId walletId (toString_base64 pub2))
               authorizationPrivateKey = Inr (Some sg2)"
    and t2: "res2 = fetch P
               (w1 @ [GenerateKey (ECDH P256) True [DeriveKey, DeriveBits] (Inr kp2),
                      ExportKey Spki (publicKey kp2) (Inr pub2),
                      ExportKey Pkcs8 (privateKey kp2) (Inr priv2),
                      GenerateAuthorizationSignature
                        (signatureInput privyAppId walletId (toString_base64 pub2))
                        authorizationPrivateKey (Inr (Some sg2))])
               req2"
    by blast
  from w1 obtain es where es: "w1 = w0 @ es" "es \<noteq> []" by blast
  from fresh es(2) g1 g2 [unfolded es(1)] have keys: "publicKey kp1 \<noteq> publicKey kp2"
    by blast
  with spki e1 e2 have "pub1 \<noteq> pub2" by blast
  then have b64: "toString_base64 pub1 \<noteq> toString_base64 pub2"
    using toString_base64_inj by blast
  have b1: "request_body req1 = JSON_stringify \<lparr> encryption_type = ''HPKE'',
               recipient_public_key = toString_base64 pub1 \<rparr>"
    and b2: "request_body req2 = JSON_stringify \<lparr> encryption_type = ''HPKE'',
               recipient_public_key = toString_base64 pub2 \<rparr>"
    unfolding q1 q2 by (simp_all add: export_request_def signatureInput_def)
  from b64 have bodies: "request_body req1 \<noteq> request_body req2"
    unfolding b1 b2 using JSON_stringify_inj by blast
  from b64 have inputs: "signatureInput privyAppId walletId (toString_base64 pub1)
               \<noteq> signatureInput privyAppId walletId (toString_base64 pub2)"
    by (simp add: signatureInput_def)
  have h1: "(''privy-authorization-signature'', sg1) \<in> set (request_headers req1)"
    and h2: "(''privy-authorization-signature'', sg2) \<in> set (request_headers req2)"
    unfolding q1 q2 by (simp_all add: export_request_def)
  have m1: "GenerateKey (ECDH P256) True [DeriveKey, DeriveBits] (Inr kp1)
             \<in> set (drop (length w0) w1)"
    and s1: "GenerateAuthorizationSignature
               (signatureInput privyAppId walletId (toString_base64 pub1))
               authorizationPrivateKey (Inr (Some sg1)) \<in> set (drop (length w0) w1)"
    unfolding w1 by simp_all
  have m2: "GenerateKey (ECDH P256) True [DeriveKey, DeriveBits] (Inr kp2)
             \<in> set (drop (length w1) w2)"
    and s2: "GenerateAuthorizationSignature
               (signatureInput privyAppId walletId (toString_base64 pub2))
               authorizationPrivateKey (Inr (Some sg2)) \<in> set (drop (length w1) w2)"
    unfolding w2 by simp_all
  show ?thesis
    apply (rule exI [of _ kp1], rule exI [of _ kp2], rule exI [of _ pub1],
           rule exI [of _ pub2], rule exI [of _ priv1], rule exI [of _ priv2],
           rule exI [of _ sg1], rule exI [of _ sg2])
    apply (intro conjI)
    apply (fact g1 g2 m1 m2 keys e1 e2 b1 b2 bodies a1 a2 s1 s2 q1 q2 t1 t2 h1 h2 inputs)+
    done
qed

theorem fresh_keypair_per_export_witness:
  "Fetch (export_request ''app'' ''secret'' ''w_123''
            (signatureInput ''app'' ''w_123'' (toString_base64 (replicate 0 1)))
            (''signed '' @ toString_base64 (replicate 0 1)))
         (Inr \<lparr> status = 200, body_text = Inr [] \<rparr>)
     \<in> set (drop (length ([] :: (nat, nat \<times> byte list) event list))
          (snd (exportWalletPrivateKey
                  (checking_platform \<lparr> status = 200, body_text = Inr [] \<rparr>)
                  ''app'' ''secret'' ''w_123'' ''authorization key'' [])))
   \<and> Fetch (export_request ''app'' ''secret'' ''w_123''
            (signatureInput ''app'' ''w_123'' (toString_base64 (replicate 9 1)))
            (''signed '' @ toString_base64 (replicate 9 1)))
         (Inr \<lparr> status = 200, body_text = Inr [] \<rparr>)
     \<in> set (drop (length (snd (exportWalletPrivateKey
                  (checking_platform \<lparr> status = 200, body_text = Inr [] \<rparr>)
                  ''app'' ''secret'' ''w_123'' ''authorization key'' [])))
          (snd (exportWalletPrivateKey
                  (checking_platform \<lparr> status = 200, body_text = Inr [] \<rparr>)
                  ''app'' ''secret'' ''w_123'' ''authorization key''
                  (snd (exportWalletPrivateKey
                     (checking_platform \<lparr> status = 200, body_text = Inr [] \<rparr>)
                     ''app'' ''secret'' ''w_123'' ''authorization key'' [])))))
   \<and> request_body (export_request ''app'' ''secret'' ''w_123''
            (signatureInput ''app'' ''w_123'' (toString_base64 (replicate 0 1)))
            (''signed '' @ toString_base64 (replicate 0 1)))
       \<noteq> request_body (export_request ''app'' ''secret'' ''w_123''
            (signatureInput ''app'' ''w_123'' (toString_base64 (replicate 9 1)))
            (''signed '' @ toString_base64 (replicate 9 1)))
   \<and> ''signed '' @ toString_base64 (replicate 0 1)
       \<noteq> ''signed '' @ toString_base64 (replicate 9 (1 :: byte))"
proof -
  let ?P = "checking_platform \<lparr> status = 200, body_text = Inr [] \<rparr>"
  let ?run = "exportWalletPrivateKey ?P ''app'' ''secret'' ''w_123'' ''authorization key''"
  let ?req = "\<lambda>n. export_request ''app'' ''secret'' ''w_123''
            (signatureInput ''app'' ''w_123'' (toString_base64 (replicate n 1)))
            (''signed '' @ toString_base64 (replicate n 1))"
  let ?w1 = "snd (?run [])"
  have fresh: "\<forall>h es kp kp'. es \<noteq> []
              \<and> generateKey ?P h (ECDH P256) True [DeriveKey, DeriveBits] = Inr kp
              \<and> generateKey ?P (h @ es) (ECDH P256) True [DeriveKey, DeriveBits] = Inr kp'
              \<longrightarrow> publicKey kp \<noteq> publicKey kp'"
    by (auto simp: checking_platform_def)
  have spki: "\<forall>k k' bs. exportKey ?P Spki k = Inr bs \<and> exportKey ?P Spki k' = Inr bs
              \<longrightarrow> k = k'"
    by (auto simp: checking_platform_def)
  have len: "length ?w1 = 9" by (simp add: checking_export)
  have e1: "?run [] = (fst (?run []), ?w1)" by simp
  have e2: "?run ?w1 = (fst (?run ?w1), snd (?run ?w1))" by simp
  have f1: "Fetch (?req 0) (Inr \<lparr> status = 200, body_text = Inr [] \<rparr>)
              \<in> set (drop (length ([] :: (nat, nat \<times> byte list) event list)) ?w1)"
    by (simp add: checking_export)
  have f2: "Fetch (?req 9) (Inr \<lparr> status = 200, body_text = Inr [] \<rparr>)
              \<in> set (drop (length ?w1) (snd (?run ?w1)))"
    unfolding checking_export [of ?w1] by (simp add: len)
  from fresh_keypair_per_export [where P = ?P, OF fresh spki e1 e2 f1 f2]
  have "request_body (?req 0) \<noteq> request_body (?req 9)" by blast
  moreover have "toString_base64 (replicate 0 1) \<noteq> toString_base64 (replicate 9 (1 :: byte))"
    using toString_base64_inj [of "replicate 0 1" "replicate 9 (1 :: byte)"] by auto
  ultimately show ?thesis using f1 f2 by simp
qed

section \<open>Properties of the key material formatter\<close>

text \<open>
  Claim C7. For every plaintext of 32 bytes the formatter gives a string of exactly 66
  characters: \<open>0x\<close> followed by 64 lowercase hexadecimal digits.
\<close>

theorem formatter_32_bytes:
  "length bs = 32 \<Longrightarrow>
     length (formatKeyMaterial bs) = 66 \<and>
     (\<exists>digits. formatKeyMaterial bs = ''0x'' @ digits \<and> length digits = 64 \<and>
        list_all is_lower_hex digits)"
  by (simp add: formatKeyMaterial_def hexString_def length_toString_hex toString_hex_lower)

theorem formatter_32_bytes_witness:
  "length (replicate 32 (0xAB :: byte)) = 32 \<and>
   length (formatKeyMaterial (replicate 32 0xAB)) = 66 \<and>
   (\<exists>digits. formatKeyMaterial (replicate 32 0xAB) = ''0x'' @ digits \<and> length digits = 64 \<and>
      list_all is_lower_hex digits)"
  using formatter_32_bytes [of "replicate 32 0xAB"] by simp

text \<open>
  Claim C6, as amended. The formatter makes no check of the length and has no failure
  mode: for a plaintext of any length it gives \<open>0x\<close> followed by two lowercase
  hexadecimal digits for each byte, so the result has 66 characters exactly when the
  plaintext has 32 bytes.
\<close>

theorem formatter_any_length:
  "length (formatKeyMaterial bs) = 2 + 2 * length bs \<and>
   take 2 (formatKeyMaterial bs) = ''0x'' \<and>
   list_all is_lower_hex (drop 2 (formatKeyMaterial bs)) \<and>
   Buffer_from_hex (drop 2 (formatKeyMaterial bs)) = bs \<and>
   (length (formatKeyMaterial bs) = 66 \<longleftrightarrow> length bs = 32)"
proof -
  have "length (formatKeyMaterial bs) = 2 + 2 * length bs"
    by (simp add: formatKeyMaterial_def hexString_def length_toString_hex)
  moreover have "take 2 (formatKeyMaterial bs) = ''0x''"
    by (simp add: formatKeyMaterial_def)
  moreover have "drop 2 (formatKeyMaterial bs) = toString_hex bs"
    by (simp add: formatKeyMaterial_def hexString_def)
  ultimately show ?thesis
    by (simp add: toString_hex_lower Buffer_from_hex_toString_hex)
qed

text \<open>
  The claim as it was stated fails: a plaintext of one byte is formatted, to a string
  of four characters, both by the formatter alone and at the end of a decryption.
\<close>

theorem formatter_length_counterexample:
  "length [0xAB :: byte] \<noteq> 32 \<and>
   formatKeyMaterial [0xAB] = ''0xab'' \<and>
   fst (decryptHPKEMessage (example_platform \<lparr> status = 200, body_text = Inr [] \<rparr>)
          ''AQ=='' ''BA=='' ''qw=='' []) = Inr ''0xab''"
proof -
  have "formatKeyMaterial [0xAB] = ''0xab''"
    by (simp add: formatKeyMaterial_def hexString_def toString_hex_def hex_byte_def
          hex_digits_def)
  moreover have "base64ToBuffer ''AQ=='' = Inr [0x01]" "base64ToBuffer ''BA=='' = Inr [0x04]"
    "base64ToBuffer ''qw=='' = Inr [0xAB]"
    by (simp_all add: base64ToBuffer_def atob_def strip_padding_def is_ascii_whitespace_def
          base64_value_def)
  ultimately show ?thesis
    by (simp add: decryptHPKEMessage_def io_defs example_platform_def)
qed

section \<open>Properties of the private-key normalisation\<close>

lemma decodeDoubleHex_shape:
  "decodeDoubleHexPrivateKey s = Inr r \<Longrightarrow> \<exists>h. r = ''0x'' @ h \<and> test_hex 64 h"
  by (auto simp: decodeDoubleHexPrivateKey_def Let_def split: if_splits option.splits)

lemma decodeDoubleHex_fixed:
  "test_hex 64 h \<Longrightarrow> decodeDoubleHexPrivateKey (''0x'' @ h) = Inr (''0x'' @ h)"
  by (simp add: decodeDoubleHexPrivateKey_def startsWith_def slice_def)

lemma startsWith_0x: "startsWith s ''0x'' \<longleftrightarrow> (\<exists>t. s = ''0x'' @ t)"
  by (cases s rule: list.exhaust; cases "tl s"; auto simp: startsWith_def)

text \<open>
  Claim C10. Whenever \<open>decodeDoubleHexPrivateKey\<close> returns, the result is \<open>0x\<close>
  followed by exactly 64 hexadecimal digits, and the function maps that result to
  itself.
\<close>

theorem decodeDoubleHex_idempotent:
  "decodeDoubleHexPrivateKey s = Inr r \<Longrightarrow>
     (\<exists>h. r = ''0x'' @ h \<and> test_hex 64 h) \<and> decodeDoubleHexPrivateKey r = Inr r"
  using decodeDoubleHex_shape decodeDoubleHex_fixed by blast

theorem decodeDoubleHex_idempotent_witness:
  "decodeDoubleHexPrivateKey
     ''34633038383361363931303239333764363233313437316235646262363230346665353132393631373038323739326165343638643031613366333632333138''
     = Inr ''0x4c0883a69102937d6231471b5dbb6204fe5129617082792ae468d01a3f362318'' \<and>
   decodeDoubleHexPrivateKey ''0x4c0883a69102937d6231471b5dbb6204fe5129617082792ae468d01a3f362318''
     = Inr ''0x4c0883a69102937d6231471b5dbb6204fe5129617082792ae468d01a3f362318''"
proof -
  have h: "decodeDoubleHexPrivateKey
     ''34633038383361363931303239333764363233313437316235646262363230346665353132393631373038323739326165343638643031613366333632333138''
     = Inr ''0x4c0883a69102937d6231471b5dbb6204fe5129617082792ae468d01a3f362318''"
    by (simp add: decodeDoubleHexPrivateKey_def startsWith_def slice_def test_hex_def
          is_hex_def toString_utf8_def hex_value_def char_of_def bit_Suc_0_iff)
  from decodeDoubleHex_idempotent [OF h] show ?thesis using h by simp
qed

text \<open>
  Claim C9, as amended. \<open>decodeDoubleHexPrivateKey\<close> never guesses. An input that is
  none of the three recognised shapes, and not \<open>0x\<close> followed by 128 double-encoded
  digits either, fails with the error
  \<open>Invalid private key format. Expected 64 or 128 hex characters.\<close>; and when a key is
  returned, its 64 digits are the whole input (with or without its \<open>0x\<close>) or the
  whole of what its 128 digits decode to. \<open>decodePrivateKey\<close> is different by design:
  of an input that starts with \<open>0x\<close> and is longer than 66 characters it returns the
  first 66 characters.
\<close>

theorem normalisation_never_guesses:
  "(\<not> recognised_shape s \<and> \<not> (startsWith s ''0x'' \<and> double_encoded (drop 2 s)) \<longrightarrow>
      decodeDoubleHexPrivateKey s
        = Inl (Error ''Invalid private key format. Expected 64 or 128 hex characters.''))
   \<and> (\<forall>r. decodeDoubleHexPrivateKey s = Inr r \<longrightarrow>
         (\<exists>h. r = ''0x'' @ h \<and> test_hex 64 h \<and>
            (s = h \<or> s = r \<or>
             (\<exists>d. (s = d \<or> s = ''0x'' @ d) \<and> test_hex 128 d \<and>
                  toString_utf8 (Buffer_from_hex d) = Some h))))
   \<and> (startsWith s ''0x'' \<and> 66 < length s \<longrightarrow> decodePrivateKey s = Inr (take 66 s))"
proof (intro conjI impI allI)
  assume "\<not> recognised_shape s \<and> \<not> (startsWith s ''0x'' \<and> double_encoded (drop 2 s))"
  then show "decodeDoubleHexPrivateKey s
        = Inl (Error ''Invalid private key format. Expected 64 or 128 hex characters.'')"
    by (auto simp: decodeDoubleHexPrivateKey_def recognised_shape_def double_encoded_def
          slice_def Let_def split: option.splits)
next
  fix r
  assume "decodeDoubleHexPrivateKey s = Inr r"
  then show "\<exists>h. r = ''0x'' @ h \<and> test_hex 64 h \<and>
            (s = h \<or> s = r \<or>
             (\<exists>d. (s = d \<or> s = ''0x'' @ d) \<and> test_hex 128 d \<and>
                  toString_utf8 (Buffer_from_hex d) = Some h))"
    by (auto simp: decodeDoubleHexPrivateKey_def slice_def Let_def startsWith_0x
          split: if_splits option.splits)
next
  assume "startsWith s ''0x'' \<and> 66 < length s"
  then obtain t where s: "s = ''0x'' @ t" and len: "64 < length t"
    by (auto simp: startsWith_0x)
  have "\<not> startsWith s ''PRIVATE_KEY=''" unfolding s by (simp add: startsWith_def)
  moreover have "startsWith s ''0x''" unfolding s by (simp add: startsWith_def)
  moreover have "''0x'' @ substring s 2 66 = take 66 s"
    unfolding s using len by (simp add: substring_def Let_def min_def max_def)
  ultimately show "decodePrivateKey s = Inr (take 66 s)"
    using len unfolding decodePrivateKey_def Let_def by (simp add: s)
qed

theorem normalisation_never_guesses_witness:
  "decodeDoubleHexPrivateKey ''not a key''
     = Inl (Error ''Invalid private key format. Expected 64 or 128 hex characters.'')
   \<and> decodePrivateKey ''0x4c0883a69102937d6231471b5dbb6204fe5129617082792ae468d01a3f362318ff''
       = Inr (take 66 ''0x4c0883a69102937d6231471b5dbb6204fe5129617082792ae468d01a3f362318ff'')"
proof -
  have a: "\<not> recognised_shape ''not a key''
            \<and> \<not> (startsWith ''not a key'' ''0x'' \<and> double_encoded (drop 2 ''not a key''))"
    by (simp add: recognised_shape_def double_encoded_def test_hex_def startsWith_def)
  have b: "startsWith ''0x4c0883a69102937d6231471b5dbb6204fe5129617082792ae468d01a3f362318ff'' ''0x''
            \<and> 66 < length ''0x4c0883a69102937d6231471b5dbb6204fe5129617082792ae468d01a3f362318ff''"
    by (simp add: startsWith_def)
  from normalisation_never_guesses [of "''not a key''"] a
       normalisation_never_guesses [of "''0x4c0883a69102937d6231471b5dbb6204fe5129617082792ae468d01a3f362318ff''"] b
  show ?thesis by blast
qed

text \<open>
  The claim as it was stated fails for \<open>decodePrivateKey\<close>: a string of 68 characters
  is cut to 66, and a string of 64 characters that are not hexadecimal digits is
  returned with \<open>0x\<close> before it. Neither input is of a recognised shape.
\<close>

theorem normalisation_counterexample:
  "\<not> recognised_shape ''0x4c0883a69102937d6231471b5dbb6204fe5129617082792ae468d01a3f362318ff''
   \<and> decodePrivateKey ''0x4c0883a69102937d6231471b5dbb6204fe5129617082792ae468d01a3f362318ff''
       = Inr ''0x4c0883a69102937d6231471b5dbb6204fe5129617082792ae468d01a3f362318''
   \<and> \<not> recognised_shape ''put the private key of your wallet here!!!!!!!!!!!!!!!!!!!!!!!!!''
   \<and> decodePrivateKey ''put the private key of your wallet here!!!!!!!!!!!!!!!!!!!!!!!!!''
       = Inr ''0xput the private key of your wallet here!!!!!!!!!!!!!!!!!!!!!!!!!''"
  by (simp add: recognised_shape_def double_encoded_def test_hex_def startsWith_def
        is_hex_def decodePrivateKey_def substring_def)

end
